theory Spec2Isabelle
  imports Complex_Main
begin

section \<open>Route planning and weather analysis: \<^verbatim>\<open>src/tools/route_planning.py\<close>\<close>

text \<open>
  A shallow embedding of the route planning tool. Python's \<^verbatim>\<open>float\<close> values are
  idealised as \<^typ>\<open>real\<close> numbers, except where rounding decides whether the program
  raises (the square roots of \<^verbatim>\<open>calculate_distance\<close>, see there). Strings are byte
  strings. On the weather condition the code only looks for ASCII keywords in the
  lower-cased text, for which \<open>lower\<close> folds the ASCII letters: the only characters
  outside ASCII that \<^verbatim>\<open>str.lower\<close> maps to ASCII letters give \<open>i\<close> followed by a
  combining dot, and \<open>k\<close>, and no keyword holds a \<open>k\<close> or ends in \<open>i\<close>. Names of cities are
  lower-cased by \<^verbatim>\<open>str.lower\<close> itself, which is taken as a parameter.
  Dictionaries with fixed keys are records, a key that may be absent is an \<open>option\<close>.
  A function that can raise returns \<open>exn + 'a\<close>, with \<open>Inl\<close> for the exception. The calls
  of the logger have no effect on any result and are left out, as is the parameter
  \<^verbatim>\<open>date\<close> of the analysis, which the code never reads.
\<close>

subsection \<open>Strings\<close>

text \<open>\<^verbatim>\<open>str.lower\<close> on one character: an upper-case ASCII letter becomes its lower-case one.\<close>

definition lower_char :: "char \<Rightarrow> char" where
  "lower_char c =
     (case map_of (zip ''ABCDEFGHIJKLMNOPQRSTUVWXYZ'' ''abcdefghijklmnopqrstuvwxyz'') c of
        None \<Rightarrow> c
      | Some l \<Rightarrow> l)"

definition lower :: "string \<Rightarrow> string" where
  "lower s = map lower_char s"

fun starts_with :: "string \<Rightarrow> string \<Rightarrow> bool" where
  "starts_with s [] = True"
| "starts_with [] (p # ps) = False"
| "starts_with (c # cs) (p # ps) = (c = p \<and> starts_with cs ps)"

text \<open>Python's \<^verbatim>\<open>word in text\<close> on strings: \<open>word\<close> occurs as a contiguous substring.\<close>

fun str_in :: "string \<Rightarrow> string \<Rightarrow> bool" where
  "str_in word [] = (word = [])"
| "str_in word (c # cs) = (starts_with (c # cs) word \<or> str_in word cs)"

subsection \<open>Weather observations and the severity classifier\<close>

text \<open>
  The weather dictionary handed over by the weather provider. A key that the dictionary
  does not have is \<open>None\<close>: \<^verbatim>\<open>weather.get(key, default)\<close> then yields the default.
\<close>

record weather =
  success :: bool
  condition :: "string option"
  wind_speed :: "real option"
  temperature :: "real option"

definition get_or :: "'a option \<Rightarrow> 'a \<Rightarrow> 'a" where
  "get_or v d = (case v of None \<Rightarrow> d | Some x \<Rightarrow> x)"

definition critical_words :: "string list" where
  "critical_words = [''thunderstorm'', ''tornado'', ''hurricane'', ''cyclone'', ''severe storm'']"

definition high_words :: "string list" where
  "high_words = [''heavy rain'', ''heavy snow'', ''blizzard'', ''hail'', ''ice storm'']"

definition medium_words :: "string list" where
  "medium_words = [''moderate rain'', ''light snow'', ''fog'', ''mist'']"

definition any_word_in :: "string list \<Rightarrow> string \<Rightarrow> bool" where
  "any_word_in ws text = list_ex (\<lambda>word. str_in word text) ws"

definition assess_weather_severity :: "weather \<Rightarrow> string" where
  "assess_weather_severity weather =
     (let condition = lower (get_or (condition weather) '''');
          wind_speed = get_or (wind_speed weather) 0;
          temp = get_or (temperature weather) 25
      in if any_word_in critical_words condition then ''critical''
         else if temp > 48 \<or> temp < - 5 then ''critical''
         else if wind_speed > 60 then ''critical''
         else if any_word_in high_words condition then ''high''
         else if temp > 43 \<or> temp < 2 then ''high''
         else if wind_speed > 40 then ''high''
         else if any_word_in medium_words condition then ''medium''
         else if temp > 38 \<or> temp < 8 then ''medium''
         else if wind_speed > 25 then ''medium''
         else ''low'')"


subsection \<open>Exceptions\<close>

datatype exn = KeyError string | ValueError string | StopIteration | Raised string

subsection \<open>Geometry\<close>

text \<open>\<^verbatim>\<open>math.radians\<close> and \<^verbatim>\<open>math.atan2\<close>, the latter with the quadrant cases written out.\<close>

definition radians :: "real \<Rightarrow> real" where
  "radians d = d * pi / 180"

definition atan2 :: "real \<Rightarrow> real \<Rightarrow> real" where
  "atan2 y x =
     (if 0 < x then arctan (y / x)
      else if x < 0 then (if 0 \<le> y then arctan (y / x) + pi else arctan (y / x) - pi)
      else if 0 < y then pi / 2
      else if y < 0 then - (pi / 2)
      else 0)"

text \<open>The haversine term \<open>a\<close> of \<^verbatim>\<open>calculate_distance\<close>, in exact arithmetic.\<close>

definition haversine_a :: "real \<Rightarrow> real \<Rightarrow> real \<Rightarrow> real \<Rightarrow> real" where
  "haversine_a lat1 lon1 lat2 lon2 =
     (let dlat = radians (lat2 - lat1);
          dlon = radians (lon2 - lon1)
      in (sin (dlat / 2))\<^sup>2 +
         cos (radians lat1) * cos (radians lat2) * (sin (dlon / 2))\<^sup>2)"

text \<open>
  \<^verbatim>\<open>math.sqrt\<close> raises \<^verbatim>\<open>ValueError("math domain error")\<close> on a negative argument.
  In exact arithmetic the term \<open>a\<close> lies between 0 and 1 (lemma \<open>haversine_a_range\<close>), but
  the program computes it in floating point, and at points that are opposite on the globe
  the computed \<open>a\<close> can exceed 1: at (-12, -70) and (12, 110) it is 1.0000000000000002,
  and \<^verbatim>\<open>math.sqrt(1 - a)\<close> raises. This is the one place where rounding decides what
  the program does, so here it is part of the model: the computed \<open>a\<close> is the exact term
  plus the rounding error that the floating point operations accumulate, a function
  \<open>rounding\<close> of the four arguments. Nothing is assumed of it. The values computed from
  \<open>a\<close> are idealised as real numbers, as everywhere else.
\<close>

type_synonym rounding = "real \<Rightarrow> real \<Rightarrow> real \<Rightarrow> real \<Rightarrow> real"

definition calculate_distance :: "rounding \<Rightarrow> real \<Rightarrow> real \<Rightarrow> real \<Rightarrow> real \<Rightarrow> exn + real" where
  "calculate_distance rounding lat1 lon1 lat2 lon2 =
     (let R = 6371;
          a = haversine_a lat1 lon1 lat2 lon2 + rounding lat1 lon1 lat2 lon2
      in if a < 0 \<or> 1 - a < 0 then Inl (ValueError ''math domain error'')
         else (let c = 2 * atan2 (sqrt a) (sqrt (1 - a));
                   distance = R * c
               in Inr distance))"

text \<open>Exact arithmetic: no rounding error. \<open>great_circle\<close> is the distance it gives.\<close>

definition exact :: rounding where
  "exact lat1 lon1 lat2 lon2 = 0"

definition great_circle :: "real \<Rightarrow> real \<Rightarrow> real \<Rightarrow> real \<Rightarrow> real" where
  "great_circle lat1 lon1 lat2 lon2 =
     (let a = haversine_a lat1 lon1 lat2 lon2
      in 6371 * (2 * atan2 (sqrt a) (sqrt (1 - a))))"

text \<open>
  The rounding error of IEEE double arithmetic at the two opposite points named above, in
  both orders: the computed \<open>a\<close> is \<open>1 + 1 / 2 ^ 52\<close> where the exact term is 1. The error at
  other arguments plays no part where this is used.
\<close>

definition antipodal_rounding :: rounding where
  "antipodal_rounding lat1 lon1 lat2 lon2 =
     (if (lat1, lon1, lat2, lon2) = (- 12, - 70, 12, 110) \<or>
         (lat1, lon1, lat2, lon2) = (12, 110, - 12, - 70)
      then 1 / 2 ^ 52 else 0)"

text \<open>The three distances are computed before the first comparison; the first call that
  raises ends the function.\<close>

definition is_point_near_route ::
  "rounding \<Rightarrow> real \<Rightarrow> real \<Rightarrow> real \<Rightarrow> real \<Rightarrow> real \<Rightarrow> real \<Rightarrow> real \<Rightarrow> exn + bool" where
  "is_point_near_route rounding point_lat point_lon start_lat start_lon end_lat end_lon
       threshold_km =
     (case calculate_distance rounding point_lat point_lon start_lat start_lon of
        Inl e \<Rightarrow> Inl e
      | Inr dist_to_start \<Rightarrow>
          (case calculate_distance rounding point_lat point_lon end_lat end_lon of
             Inl e \<Rightarrow> Inl e
           | Inr dist_to_end \<Rightarrow>
               (case calculate_distance rounding start_lat start_lon end_lat end_lon of
                  Inl e \<Rightarrow> Inl e
                | Inr route_length \<Rightarrow>
                    if dist_to_start < threshold_km \<or> dist_to_end < threshold_km then Inr True
                    else (let total_detour = dist_to_start + dist_to_end - route_length
                          in Inr (total_detour < threshold_km)))))"

text \<open>
  \<^verbatim>\<open>round(x, 2)\<close>: the nearest multiple of \<open>1/100\<close>, a tie going to the even one.
  \<^verbatim>\<open>int(x)\<close> truncates towards zero.
\<close>

definition round_half_even :: "real \<Rightarrow> int" where
  "round_half_even y =
     (let f = \<lfloor>y\<rfloor>; r = y - of_int f
      in if r < 1 / 2 then f
         else if 1 / 2 < r then f + 1
         else if even f then f else f + 1)"

definition round2 :: "real \<Rightarrow> real" where
  "round2 x = of_int (round_half_even (x * 100)) / 100"

definition py_int :: "real \<Rightarrow> int" where
  "py_int x = (if 0 \<le> x then \<lfloor>x\<rfloor> else \<lceil>x\<rceil>)"

subsection \<open>Cities and the table of major cities\<close>

record place =
  name :: string
  lat :: real
  lon :: real
  state :: string

text \<open>
  A city on the route: a place with its \<^verbatim>\<open>distance_from_start\<close>. The keys
  \<^verbatim>\<open>is_start\<close> and \<^verbatim>\<open>is_end\<close> exist only in the dictionaries of the two end points and
  are read with \<^verbatim>\<open>.get(key, False)\<close>, so an absent key is \<open>False\<close> here.
\<close>

record route_city = place +
  distance_from_start :: real
  is_start :: bool
  is_end :: bool

definition mk_place :: "string \<Rightarrow> real \<Rightarrow> real \<Rightarrow> string \<Rightarrow> place" where
  "mk_place n la lo st = \<lparr>name = n, lat = la, lon = lo, state = st\<rparr>"

definition MAJOR_CITIES_INDIA :: "place list" where
  "MAJOR_CITIES_INDIA =
     [mk_place ''Chennai'' 13.0827 80.2707 ''Tamil Nadu'',
      mk_place ''Trichy'' 10.7905 78.7047 ''Tamil Nadu'',
      mk_place ''Tiruchirappalli'' 10.7905 78.7047 ''Tamil Nadu'',
      mk_place ''Villupuram'' 11.9401 79.4861 ''Tamil Nadu'',
      mk_place ''Perambalur'' 11.2324 78.8798 ''Tamil Nadu'',
      mk_place ''Ariyalur'' 11.1401 79.0766 ''Tamil Nadu'',
      mk_place ''Salem'' 11.6643 78.1460 ''Tamil Nadu'',
      mk_place ''Coimbatore'' 11.0168 76.9558 ''Tamil Nadu'',
      mk_place ''Madurai'' 9.9252 78.1198 ''Tamil Nadu'',
      mk_place ''Bangalore'' 12.9716 77.5946 ''Karnataka'',
      mk_place ''Bengaluru'' 12.9716 77.5946 ''Karnataka'',
      mk_place ''Hosur'' 12.7409 77.8253 ''Tamil Nadu'',
      mk_place ''Krishnagiri'' 12.5186 78.2137 ''Tamil Nadu'',
      mk_place ''Dharmapuri'' 12.1211 78.1582 ''Tamil Nadu'',
      mk_place ''Vellore'' 12.9165 79.1325 ''Tamil Nadu'',
      mk_place ''Kanchipuram'' 12.8342 79.7036 ''Tamil Nadu'',
      mk_place ''Hyderabad'' 17.3850 78.4867 ''Telangana'',
      mk_place ''Mumbai'' 19.0760 72.8777 ''Maharashtra'',
      mk_place ''Delhi'' 28.7041 77.1025 ''Delhi'',
      mk_place ''Kolkata'' 22.5726 88.3639 ''West Bengal'',
      mk_place ''Pune'' 18.5204 73.8567 ''Maharashtra'',
      mk_place ''Ahmedabad'' 23.0225 72.5714 ''Gujarat'']"


subsection \<open>The external collaborators\<close>

text \<open>
  The collaborators are outside the program: the geocoder and the weather provider of
  \<^verbatim>\<open>custom_tools\<close> may return or raise, the two HTTP wrappers of this module
  (\<^verbatim>\<open>get_route_from_google_maps\<close>, \<^verbatim>\<open>reverse_geocode\<close>) catch every exception of
  their request and return \<^verbatim>\<open>None\<close> instead. Each call takes the state of the world
  \<open>'w\<close> and returns the next one, so a collaborator may answer the same question
  differently each time.

  Three parts of the Python runtime come with them. \<open>str_float\<close> is the formatting of a
  number in an f-string. \<open>str_lower\<close> is \<^verbatim>\<open>str.lower\<close> on the names of cities, which
  are compared as wholes and may hold any Unicode text, so that folding the ASCII letters
  would not do. \<open>float_rounding\<close> is the rounding error of the haversine term.
\<close>

record geo =
  geo_name :: string
  geo_lat :: real
  geo_lon :: real
  geo_state :: "string option"

record waypoint =
  wp_lat :: "real option"
  wp_lon :: "real option"

record city_info =
  ci_name :: string
  ci_state :: string
  ci_country :: string

datatype weather_reply = NotADict | WeatherDict weather

record 'w env =
  geocode_location :: "string \<Rightarrow> 'w \<Rightarrow> (exn + geo option) \<times> 'w"
  get_route_from_google_maps :: "string \<Rightarrow> string \<Rightarrow> 'w \<Rightarrow> waypoint list option \<times> 'w"
  reverse_geocode :: "real \<Rightarrow> real \<Rightarrow> 'w \<Rightarrow> city_info option \<times> 'w"
  get_weather_data :: "string \<Rightarrow> 'w \<Rightarrow> (exn + weather_reply) \<times> 'w"
  str_float :: "real \<Rightarrow> string"
  str_lower :: "string \<Rightarrow> string"
  float_rounding :: rounding

subsection \<open>Cities from the waypoints of a route\<close>

text \<open>\<^verbatim>\<open>[waypoints[i] for i in range(0, len(waypoints), sample_interval)]\<close>\<close>

definition sampled :: "nat \<Rightarrow> 'a list \<Rightarrow> 'a list" where
  "sampled sample_interval xs =
     map (\<lambda>i. xs ! i) (filter (\<lambda>i. i mod sample_interval = 0) [0..<length xs])"

text \<open>\<^verbatim>\<open>if lat and lon\<close>: a coordinate that is \<^verbatim>\<open>None\<close> or zero is falsy.\<close>

definition truthy :: "real option \<Rightarrow> bool" where
  "truthy v = (case v of None \<Rightarrow> False | Some x \<Rightarrow> x \<noteq> 0)"

text \<open>One round of the loop over the sampled waypoints: the state is the list of cities,
  the set of names seen, and the world.\<close>

definition visit_waypoint ::
  "'w env \<Rightarrow> string \<Rightarrow> string \<Rightarrow> waypoint \<Rightarrow> place list \<times> string set \<times> 'w
     \<Rightarrow> place list \<times> string set \<times> 'w" where
  "visit_waypoint env start_city end_city waypoint st =
     (case st of (cities, seen_cities, w) \<Rightarrow>
        if truthy (wp_lat waypoint) \<and> truthy (wp_lon waypoint) then
          (case reverse_geocode env (get_or (wp_lat waypoint) 0) (get_or (wp_lon waypoint) 0) w of
             (None, w') \<Rightarrow> (cities, seen_cities, w')
           | (Some info, w') \<Rightarrow>
               if ci_name info \<noteq> [] then
                 (let city_name = ci_name info
                  in if str_lower env city_name \<notin> seen_cities \<and>
                        str_lower env city_name \<notin> set [str_lower env start_city, str_lower env end_city]
                     then (cities @ [mk_place city_name (get_or (wp_lat waypoint) 0)
                                       (get_or (wp_lon waypoint) 0) (ci_state info)],
                           insert (str_lower env city_name) seen_cities, w')
                     else (cities, seen_cities, w'))
               else (cities, seen_cities, w'))
        else (cities, seen_cities, w))"

fun waypoints_loop ::
  "'w env \<Rightarrow> string \<Rightarrow> string \<Rightarrow> waypoint list \<Rightarrow> place list \<times> string set \<times> 'w
     \<Rightarrow> place list \<times> string set \<times> 'w" where
  "waypoints_loop env start_city end_city [] st = st"
| "waypoints_loop env start_city end_city (waypoint # rest) st =
     waypoints_loop env start_city end_city rest (visit_waypoint env start_city end_city waypoint st)"

definition find_cities_from_route_waypoints ::
  "'w env \<Rightarrow> waypoint list \<Rightarrow> string \<Rightarrow> string \<Rightarrow> nat \<Rightarrow> 'w \<Rightarrow> (exn + place list) \<times> 'w" where
  "find_cities_from_route_waypoints env waypoints start_city end_city sample_interval w =
     (if sample_interval = 0 then (Inl (ValueError ''range() arg 3 must not be zero''), w)
      else (case waypoints_loop env start_city end_city (sampled sample_interval waypoints) ([], {}, w) of
              (cities, seen_cities, w') \<Rightarrow> (Inr cities, w')))"


subsection \<open>Cities along the route\<close>

definition mk_city :: "string \<Rightarrow> real \<Rightarrow> real \<Rightarrow> string \<Rightarrow> real \<Rightarrow> route_city" where
  "mk_city n la lo st d =
     \<lparr>name = n, lat = la, lon = lo, state = st,
      distance_from_start = d, is_start = False, is_end = False\<rparr>"

text \<open>The primary path: every city found gets its distance from the start, in the order of
  the list; a distance computation that raises ends the loop.\<close>

fun add_distances :: "rounding \<Rightarrow> real \<Rightarrow> real \<Rightarrow> place list \<Rightarrow> exn + route_city list" where
  "add_distances rounding start_lat start_lon [] = Inr []"
| "add_distances rounding start_lat start_lon (c # cs) =
     (case calculate_distance rounding start_lat start_lon (lat c) (lon c) of
        Inl e \<Rightarrow> Inl e
      | Inr distance \<Rightarrow>
          (case add_distances rounding start_lat start_lon cs of
             Inl e \<Rightarrow> Inl e
           | Inr rest \<Rightarrow> Inr (mk_city (name c) (lat c) (lon c) (state c) (round2 distance) # rest)))"

definition primary_cities ::
  "'w env \<Rightarrow> string \<Rightarrow> string \<Rightarrow> real \<Rightarrow> real \<Rightarrow> waypoint list \<Rightarrow> 'w \<Rightarrow> (exn + route_city list) \<times> 'w" where
  "primary_cities env start_city end_city start_lat start_lon waypoints w =
     (case find_cities_from_route_waypoints env waypoints start_city end_city 10 w of
        (Inl e, w1) \<Rightarrow> (Inl e, w1)
      | (Inr route_cities, w1) \<Rightarrow>
          (add_distances (float_rounding env) start_lat start_lon route_cities, w1))"

text \<open>The fallback, first part: the cities of the table that are near the route, in the
  order of the table.\<close>

fun curated_loop ::
  "'w env \<Rightarrow> string \<Rightarrow> string \<Rightarrow> real \<Rightarrow> real \<Rightarrow> real \<Rightarrow> real \<Rightarrow> real \<Rightarrow> place list \<Rightarrow> route_city list
     \<Rightarrow> exn + route_city list" where
  "curated_loop env start_city end_city start_lat start_lon end_lat end_lon threshold_km []
       route_cities = Inr route_cities"
| "curated_loop env start_city end_city start_lat start_lon end_lat end_lon threshold_km (c # cs)
       route_cities =
     (if str_lower env (name c) \<in> set [str_lower env start_city, str_lower env end_city]
      then curated_loop env start_city end_city start_lat start_lon end_lat end_lon threshold_km cs
             route_cities
      else
        (case is_point_near_route (float_rounding env) (lat c) (lon c) start_lat start_lon
                end_lat end_lon threshold_km of
           Inl e \<Rightarrow> Inl e
         | Inr near \<Rightarrow>
             if near then
               (case calculate_distance (float_rounding env) start_lat start_lon (lat c) (lon c) of
                  Inl e \<Rightarrow> Inl e
                | Inr dist_from_start \<Rightarrow>
                    curated_loop env start_city end_city start_lat start_lon end_lat end_lon
                      threshold_km cs
                      (route_cities @
                         [mk_city (name c) (lat c) (lon c) (state c) (round2 dist_from_start)]))
             else curated_loop env start_city end_city start_lat start_lon end_lat end_lon
                    threshold_km cs route_cities))"

definition curated_cities ::
  "'w env \<Rightarrow> string \<Rightarrow> string \<Rightarrow> real \<Rightarrow> real \<Rightarrow> real \<Rightarrow> real \<Rightarrow> real \<Rightarrow> exn + route_city list" where
  "curated_cities env start_city end_city start_lat start_lon end_lat end_lon threshold_km =
     curated_loop env start_city end_city start_lat start_lon end_lat end_lon threshold_km
       MAJOR_CITIES_INDIA []"

text \<open>The fallback, second part: intermediate points on the straight line.\<close>

definition num_points :: "real \<Rightarrow> nat" where
  "num_points total_distance = nat (min 5 (max 2 (py_int (total_distance / 100))))"

definition inter_point :: "real \<Rightarrow> real \<Rightarrow> real \<Rightarrow> real \<Rightarrow> nat \<Rightarrow> nat \<Rightarrow> real \<times> real" where
  "inter_point start_lat start_lon end_lat end_lon n i =
     (let fraction = real i / real (n + 1);
          inter_lat = start_lat + (end_lat - start_lat) * fraction;
          inter_lon = start_lon + (end_lon - start_lon) * fraction
      in (inter_lat, inter_lon))"

definition interpolation_points :: "real \<Rightarrow> real \<Rightarrow> real \<Rightarrow> real \<Rightarrow> real \<Rightarrow> (real \<times> real) list" where
  "interpolation_points start_lat start_lon end_lat end_lon total_distance =
     map (inter_point start_lat start_lon end_lat end_lon (num_points total_distance))
       [1..<num_points total_distance + 1]"

text \<open>One round of the interpolation loop. Its body is a \<^verbatim>\<open>try\<close> block: a distance
  computation that raises is caught there, and the point is left out.\<close>

definition visit_point ::
  "'w env \<Rightarrow> real \<Rightarrow> real \<Rightarrow> real \<times> real \<Rightarrow> route_city list \<times> 'w \<Rightarrow> route_city list \<times> 'w" where
  "visit_point env start_lat start_lon p st =
     (case st of (route_cities, w) \<Rightarrow>
        (case reverse_geocode env (fst p) (snd p) w of
           (None, w') \<Rightarrow> (route_cities, w')
         | (Some info, w') \<Rightarrow>
             if \<not> list_ex (\<lambda>c. str_lower env (name c) = str_lower env (ci_name info)) route_cities
             then
               (case calculate_distance (float_rounding env) start_lat start_lon (fst p) (snd p) of
                  Inl e \<Rightarrow> (route_cities, w')
                | Inr dist_from_start \<Rightarrow>
                    (route_cities @
                       [mk_city (ci_name info) (fst p) (snd p) (ci_state info)
                          (round2 dist_from_start)],
                     w'))
             else (route_cities, w')))"

fun interpolation_loop ::
  "'w env \<Rightarrow> real \<Rightarrow> real \<Rightarrow> (real \<times> real) list \<Rightarrow> route_city list \<times> 'w \<Rightarrow> route_city list \<times> 'w" where
  "interpolation_loop env start_lat start_lon [] st = st"
| "interpolation_loop env start_lat start_lon (p # ps) st =
     interpolation_loop env start_lat start_lon ps (visit_point env start_lat start_lon p st)"

definition fallback_cities ::
  "'w env \<Rightarrow> string \<Rightarrow> string \<Rightarrow> real \<Rightarrow> real \<Rightarrow> real \<Rightarrow> real \<Rightarrow> real \<Rightarrow> real \<Rightarrow> 'w
     \<Rightarrow> (exn + route_city list) \<times> 'w" where
  "fallback_cities env start_city end_city start_lat start_lon end_lat end_lon threshold_km
       total_distance w =
     (case curated_cities env start_city end_city start_lat start_lon end_lat end_lon
             threshold_km of
        Inl e \<Rightarrow> (Inl e, w)
      | Inr route_cities \<Rightarrow>
          if length route_cities < 2 \<and> total_distance > 100
          then (case interpolation_loop env start_lat start_lon
                       (interpolation_points start_lat start_lon end_lat end_lon total_distance)
                       (route_cities, w) of
                  (route_cities', w') \<Rightarrow> (Inr route_cities', w'))
          else (Inr route_cities, w))"

text \<open>The function after its two geocoding calls: the total distance, the route of the
  directions provider, and one of the two paths.\<close>

definition route_cities_of ::
  "'w env \<Rightarrow> string \<Rightarrow> string \<Rightarrow> real \<Rightarrow> geo \<Rightarrow> geo \<Rightarrow> 'w \<Rightarrow> (exn + route_city list) \<times> 'w" where
  "route_cities_of env start_city end_city threshold_km start_coords end_coords w =
     (let start_lat = geo_lat start_coords; start_lon = geo_lon start_coords;
          end_lat = geo_lat end_coords; end_lon = geo_lon end_coords
      in case calculate_distance (float_rounding env) start_lat start_lon end_lat end_lon of
           Inl e \<Rightarrow> (Inl e, w)
         | Inr total_distance \<Rightarrow>
             (case get_route_from_google_maps env start_city end_city w of
                (waypoints, w1) \<Rightarrow>
                  if waypoints \<noteq> None \<and> waypoints \<noteq> Some [] then
                    primary_cities env start_city end_city start_lat start_lon
                      (get_or waypoints []) w1
                  else
                    fallback_cities env start_city end_city start_lat start_lon end_lat end_lon
                      threshold_km total_distance w1))"

definition find_cities_along_route ::
  "'w env \<Rightarrow> string \<Rightarrow> string \<Rightarrow> real \<Rightarrow> 'w \<Rightarrow> (exn + route_city list) \<times> 'w" where
  "find_cities_along_route env start_city end_city threshold_km w =
     (case geocode_location env start_city w of
        (Inl e, w1) \<Rightarrow> (Inl e, w1)
      | (Inr start_coords, w1) \<Rightarrow>
          (case geocode_location env end_city w1 of
             (Inl e, w2) \<Rightarrow> (Inl e, w2)
           | (Inr end_coords, w2) \<Rightarrow>
               (case (start_coords, end_coords) of
                  (Some sc, Some ec) \<Rightarrow>
                    (case route_cities_of env start_city end_city threshold_km sc ec w2 of
                       (Inl e, w3) \<Rightarrow> (Inl e, w3)
                     | (Inr route_cities, w3) \<Rightarrow>
                         (Inr (sort_key distance_from_start route_cities), w3))
                | _ \<Rightarrow> (Inr [], w2))))"

subsection \<open>The recommendation\<close>

text \<open>
  One entry of \<^verbatim>\<open>city_weather\<close>. The recommendation reads the severity with
  \<^verbatim>\<open>.get("severity", "low")\<close>, so the key may be absent.
\<close>

record city_data =
  city :: string
  cd_state :: string
  distance_km :: real
  cd_weather :: weather
  severity :: "string option"
  cd_is_start :: bool
  cd_is_end :: bool

text \<open>\<^verbatim>\<open>sep.join(xs)\<close>\<close>

fun join :: "string \<Rightarrow> string list \<Rightarrow> string" where
  "join sep [] = []"
| "join sep [x] = x"
| "join sep (x # y # ys) = x @ sep @ join sep (y # ys)"

text \<open>The three non-ASCII signs of the messages, as their UTF-8 bytes.\<close>

definition sign_alarm :: string where
  "sign_alarm = [CHR 0xF0, CHR 0x9F, CHR 0x9A, CHR 0xA8]"

definition sign_warning :: string where
  "sign_warning = [CHR 0xE2, CHR 0x9A, CHR 0xA0, CHR 0xEF, CHR 0xB8, CHR 0x8F]"

definition sign_check :: string where
  "sign_check = [CHR 0xE2, CHR 0x9C, CHR 0x85]"

definition msg_no_data :: string where
  "msg_no_data = ''Unable to generate recommendation - no weather data available.''"

definition msg_do_not_travel :: "string list \<Rightarrow> string" where
  "msg_do_not_travel critical_cities =
     sign_alarm @ '' DO NOT TRAVEL - Critical weather conditions detected in '' @
     join '', '' critical_cities @ ''. '' @
     ''Extreme weather poses serious safety risks (severe storms, extreme temperatures, or hurricane-force winds). '' @
     ''POSTPONE TRAVEL or take alternative route.''"

definition msg_not_recommended :: "string list \<Rightarrow> string" where
  "msg_not_recommended high_cities =
     sign_warning @ '' TRAVEL NOT RECOMMENDED - Hazardous weather in '' @
     join '', '' high_cities @ ''. '' @
     ''Heavy rain, snow, or very strong winds expected. Consider delaying travel until conditions improve.''"

definition msg_caution :: "string \<Rightarrow> string" where
  "msg_caution high_city =
     sign_warning @ '' CAUTION ADVISED - Hazardous weather expected in '' @ high_city @ ''. '' @
     ''Travel possible but drive carefully through this area. Monitor weather updates.''"

definition msg_safe_with_caution :: string where
  "msg_safe_with_caution =
     sign_check @ '' TRAVEL SAFE WITH CAUTION - Some areas may have moderate rain, fog, or winds. '' @
     ''Normal travel possible, just drive carefully and stay alert to changing conditions.''"

definition msg_excellent :: string where
  "msg_excellent =
     sign_check @ '' EXCELLENT CONDITIONS - Weather is favorable for travel along this route. '' @
     ''Safe journey expected. Enjoy your trip!''"

text \<open>
  The dictionary \<^verbatim>\<open>severity_counts\<close> and the loop that fills it:
  \<^verbatim>\<open>severity_counts[severity] += 1\<close> raises \<^verbatim>\<open>KeyError\<close> on a key it does not have.
\<close>

definition severity_counts_init :: "string \<rightharpoonup> nat" where
  "severity_counts_init = [''low'' \<mapsto> 0, ''medium'' \<mapsto> 0, ''high'' \<mapsto> 0, ''critical'' \<mapsto> 0]"

fun count_severities :: "city_data list \<Rightarrow> (string \<rightharpoonup> nat) \<Rightarrow> exn + (string \<rightharpoonup> nat)" where
  "count_severities [] severity_counts = Inr severity_counts"
| "count_severities (c # cs) severity_counts =
     (let sev = get_or (severity c) ''low''
      in case severity_counts sev of
           None \<Rightarrow> Inl (KeyError sev)
         | Some n \<Rightarrow> count_severities cs (severity_counts(sev \<mapsto> n + 1)))"

definition generate_route_recommendation ::
  "city_data list \<Rightarrow> string list \<Rightarrow> string list \<Rightarrow> exn + string" where
  "generate_route_recommendation city_weather warnings severe =
     (if city_weather = [] then Inr msg_no_data
      else
        (case count_severities city_weather severity_counts_init of
           Inl e \<Rightarrow> Inl e
         | Inr severity_counts \<Rightarrow>
             (let total_cities = length city_weather
              in if get_or (severity_counts ''critical'') 0 > 0 then
                   Inr (msg_do_not_travel
                          (map city (filter (\<lambda>c. severity c = Some ''critical'') city_weather)))
                 else if get_or (severity_counts ''high'') 0 \<ge> 2 then
                   Inr (msg_not_recommended
                          (map city (filter (\<lambda>c. severity c = Some ''high'') city_weather)))
                 else if get_or (severity_counts ''high'') 0 = 1 then
                   (case find (\<lambda>c. severity c = Some ''high'') city_weather of
                      None \<Rightarrow> Inl StopIteration
                    | Some c \<Rightarrow> Inr (msg_caution (city c)))
                 else if real (get_or (severity_counts ''medium'') 0) \<ge> real total_cities * 0.5 then
                   Inr msg_safe_with_caution
                 else Inr msg_excellent)))"


subsection \<open>The analysis of a route\<close>

definition all_cities :: "geo \<Rightarrow> geo \<Rightarrow> real \<Rightarrow> route_city list \<Rightarrow> route_city list" where
  "all_cities start_coords end_coords total_distance intermediate_cities =
     [\<lparr>name = geo_name start_coords, lat = geo_lat start_coords, lon = geo_lon start_coords,
       state = get_or (geo_state start_coords) '''',
       distance_from_start = 0, is_start = True, is_end = False\<rparr>]
     @ intermediate_cities @
     [\<lparr>name = geo_name end_coords, lat = geo_lat end_coords, lon = geo_lon end_coords,
       state = get_or (geo_state end_coords) '''',
       distance_from_start = round2 total_distance, is_start = False, is_end = True\<rparr>]"

text \<open>
  The first part of the \<^verbatim>\<open>try\<close> block: the complete route and the total distance,
  \<open>None\<close> where the code returns its geocoding failure, \<open>Inl\<close> where a call raises.
\<close>

definition resolve_route ::
  "'w env \<Rightarrow> string \<Rightarrow> string \<Rightarrow> 'w \<Rightarrow> (exn + (route_city list \<times> real) option) \<times> 'w" where
  "resolve_route env start_city end_city w =
     (case geocode_location env start_city w of
        (Inl e, w1) \<Rightarrow> (Inl e, w1)
      | (Inr start_coords, w1) \<Rightarrow>
          (case geocode_location env end_city w1 of
             (Inl e, w2) \<Rightarrow> (Inl e, w2)
           | (Inr end_coords, w2) \<Rightarrow>
               (case (start_coords, end_coords) of
                  (Some sc, Some ec) \<Rightarrow>
                    (case calculate_distance (float_rounding env)
                            (geo_lat sc) (geo_lon sc) (geo_lat ec) (geo_lon ec) of
                       Inl e \<Rightarrow> (Inl e, w2)
                     | Inr total_distance \<Rightarrow>
                         (case find_cities_along_route env start_city end_city 50 w2 of
                            (Inl e, w3) \<Rightarrow> (Inl e, w3)
                          | (Inr intermediate_cities, w3) \<Rightarrow>
                              (Inr (Some (all_cities sc ec total_distance intermediate_cities,
                                          total_distance)), w3)))
                | _ \<Rightarrow> (Inr None, w2))))"

text \<open>One round of the loop over the cities: a fetch that raises, a reply that is not a
  dictionary and a reply without success leave the three lists as they are.\<close>

definition visit_city ::
  "'w env \<Rightarrow> route_city \<Rightarrow> city_data list \<times> string list \<times> string list \<times> 'w
     \<Rightarrow> city_data list \<times> string list \<times> string list \<times> 'w" where
  "visit_city env c st =
     (case st of (city_weather, weather_warnings, severe_conditions, w) \<Rightarrow>
        (case get_weather_data env (name c) w of
           (Inl e, w') \<Rightarrow> (city_weather, weather_warnings, severe_conditions, w')
         | (Inr NotADict, w') \<Rightarrow> (city_weather, weather_warnings, severe_conditions, w')
         | (Inr (WeatherDict weather), w') \<Rightarrow>
             if success weather then
               (let sev = assess_weather_severity weather;
                    entry = \<lparr>city = name c, cd_state = state c,
                             distance_km = distance_from_start c, cd_weather = weather,
                             severity = Some sev,
                             cd_is_start = is_start c, cd_is_end = is_end c\<rparr>;
                    severe1 =
                      (if sev \<in> set [''high'', ''critical'']
                       then severe_conditions @
                              [name c @ '': '' @ get_or (condition weather) ''Unknown'']
                       else severe_conditions);
                    warnings1 =
                      (if get_or (wind_speed weather) 0 > 40
                       then weather_warnings @
                              [''Strong winds in '' @ name c @ '' ('' @
                               str_float env (get_or (wind_speed weather) 0) @ '' km/h)'']
                       else weather_warnings);
                    condition_lower = lower (get_or (condition weather) '''');
                    warnings2 =
                      (if str_in ''heavy rain'' condition_lower \<or>
                          str_in ''thunderstorm'' condition_lower
                       then warnings1 @ [''Heavy rain in '' @ name c]
                       else warnings1)
                in (city_weather @ [entry], warnings2, severe1, w'))
             else (city_weather, weather_warnings, severe_conditions, w')))"

fun cities_loop ::
  "'w env \<Rightarrow> route_city list \<Rightarrow> city_data list \<times> string list \<times> string list \<times> 'w
     \<Rightarrow> city_data list \<times> string list \<times> string list \<times> 'w" where
  "cities_loop env [] st = st"
| "cities_loop env (c # cs) st = cities_loop env cs (visit_city env c st)"

record route_summary =
  route_start :: string
  route_end :: string
  total_distance_km :: real
  cities_count :: nat

record report =
  route :: route_summary
  cities :: "city_data list"
  weather_warnings :: "string list"
  severe_conditions :: "string list"
  recommendation :: string

text \<open>The dictionary returned: with \<^verbatim>\<open>"success": True\<close> the report (its time stamp is
  left out), with \<^verbatim>\<open>"success": False\<close> the error text.\<close>

datatype analysis = Report report | Failure string

definition str_exn :: "exn \<Rightarrow> string" where
  "str_exn e =
     (case e of
        KeyError k \<Rightarrow> [CHR 0x27] @ k @ [CHR 0x27]
      | ValueError m \<Rightarrow> m
      | StopIteration \<Rightarrow> []
      | Raised m \<Rightarrow> m)"

text \<open>The body of the \<^verbatim>\<open>try\<close> block.\<close>

definition analysis_body ::
  "'w env \<Rightarrow> string \<Rightarrow> string \<Rightarrow> 'w \<Rightarrow> (exn + analysis) \<times> 'w" where
  "analysis_body env start_city end_city w =
     (case resolve_route env start_city end_city w of
        (Inl e, w1) \<Rightarrow> (Inl e, w1)
      | (Inr None, w1) \<Rightarrow> (Inr (Failure ''Could not geocode start or end city''), w1)
      | (Inr (Some (cs, total_distance)), w1) \<Rightarrow>
          (case cities_loop env cs ([], [], [], w1) of
             (city_weather, warnings, severe, w2) \<Rightarrow>
               (case generate_route_recommendation city_weather warnings severe of
                  Inl e \<Rightarrow> (Inl e, w2)
                | Inr text \<Rightarrow>
                    (Inr (Report
                       \<lparr>route = \<lparr>route_start = start_city, route_end = end_city,
                                 total_distance_km = round2 total_distance,
                                 cities_count = length cs\<rparr>,
                        cities = city_weather,
                        weather_warnings = warnings,
                        severe_conditions = severe,
                        recommendation = text\<rparr>), w2))))"

text \<open>The whole function: \<^verbatim>\<open>except Exception as e\<close> turns whatever the body raised
  into the failure dictionary. The result is \<open>Inl\<close> only if an exception leaves the function.\<close>

definition get_route_weather_analysis ::
  "'w env \<Rightarrow> string \<Rightarrow> string \<Rightarrow> 'w \<Rightarrow> (exn + analysis) \<times> 'w" where
  "get_route_weather_analysis env start_city end_city w =
     (case analysis_body env start_city end_city w of
        (Inl e, w1) \<Rightarrow> (Inr (Failure (str_exn e)), w1)
      | (Inr r, w1) \<Rightarrow> (Inr r, w1))"

subsection \<open>The interpolation rule in the words of the specification\<close>

text \<open>
  The specification's wording of the number of interpolation points, for comparison with
  \<open>num_points\<close>: one point per 100 km, at least 1 and at most 5.
\<close>

definition spec_num_points :: "real \<Rightarrow> nat" where
  "spec_num_points total_distance = nat (min 5 (max 1 (py_int (total_distance / 100))))"

subsection \<open>Concrete collaborators\<close>

text \<open>
  Collaborators that answer by fixed functions, on ASCII names and in exact arithmetic.
  Their world is the list of the coordinates that were reverse-geocoded so far, so a run
  shows which points it asked about.
\<close>

definition fixed_env ::
  "(string \<Rightarrow> exn + geo option) \<Rightarrow> waypoint list option \<Rightarrow> (real \<Rightarrow> real \<Rightarrow> city_info option) \<Rightarrow>
     (string \<Rightarrow> exn + weather_reply) \<Rightarrow> (real \<times> real) list env" where
  "fixed_env geocode waypoints reverse weather_of =
     \<lparr>geocode_location = (\<lambda>place w. (geocode place, w)),
      get_route_from_google_maps = (\<lambda>start_city end_city w. (waypoints, w)),
      reverse_geocode = (\<lambda>la lo w. (reverse la lo, w @ [(la, lo)])),
      get_weather_data = (\<lambda>place w. (weather_of place, w)),
      str_float = (\<lambda>x. ''?''),
      str_lower = lower,
      float_rounding = exact\<rparr>"

text \<open>Two places on the meridian of 100 degrees east, one degree of latitude apart.\<close>

definition two_places :: "string \<Rightarrow> exn + geo option" where
  "two_places place =
     (if place = ''Alpha''
      then Inr (Some \<lparr>geo_name = ''Alpha'', geo_lat = 0, geo_lon = 100, geo_state = None\<rparr>)
      else if place = ''Omega''
      then Inr (Some \<lparr>geo_name = ''Omega'', geo_lat = 1, geo_lon = 100, geo_state = None\<rparr>)
      else Inr None)"

definition always_named :: "string \<Rightarrow> real \<Rightarrow> real \<Rightarrow> city_info option" where
  "always_named n la lo = Some \<lparr>ci_name = n, ci_state = '''', ci_country = ''''\<rparr>"

definition clear_weather :: "string \<Rightarrow> exn + weather_reply" where
  "clear_weather place =
     Inr (WeatherDict \<lparr>success = True, condition = Some ''Clear'', wind_speed = Some 15,
                       temperature = Some 22\<rparr>)"

text \<open>A route whose only sampled waypoint lies one degree beyond the end.\<close>

definition overshoot_env :: "(real \<times> real) list env" where
  "overshoot_env =
     fixed_env two_places (Some [\<lparr>wp_lat = Some 2, wp_lon = Some 100\<rparr>])
       (always_named ''Midway'') clear_weather"

text \<open>No route from the directions provider, and a reverse geocoder that names every
  point after the start city.\<close>

definition echo_env :: "(real \<times> real) list env" where
  "echo_env = fixed_env two_places None (always_named ''Alpha'') clear_weather"

text \<open>A route through one city between the two places, whose weather fetch raises.\<close>

definition midway_down :: "string \<Rightarrow> exn + weather_reply" where
  "midway_down place =
     (if place = ''Midway'' then Inl (Raised ''weather service timed out'')
      else clear_weather place)"

definition outage_env :: "(real \<times> real) list env" where
  "outage_env =
     fixed_env two_places (Some [\<lparr>wp_lat = Some 0.5, wp_lon = Some 100\<rparr>])
       (always_named ''Midway'') midway_down"

text \<open>
  A geocoder that knows the two places for its first two calls and finds nothing from the
  third call on; its world is the number of calls made. No route, no reverse geocoding.
\<close>

definition forgetful_env :: "nat env" where
  "forgetful_env =
     \<lparr>geocode_location = (\<lambda>place n. (if n < 2 then two_places place else Inr None, Suc n)),
      get_route_from_google_maps = (\<lambda>start_city end_city n. (None, n)),
      reverse_geocode = (\<lambda>la lo n. (None, n)),
      get_weather_data = (\<lambda>place n. (clear_weather place, n)),
      str_float = (\<lambda>x. ''?''),
      str_lower = lower,
      float_rounding = exact\<rparr>"

text \<open>
  Two places opposite on the globe, at the coordinates where the floating point haversine
  term exceeds 1, with the rounding error of that computation.
\<close>

definition opposite_places :: "string \<Rightarrow> exn + geo option" where
  "opposite_places place =
     (if place = ''Alpha''
      then Inr (Some \<lparr>geo_name = ''Alpha'', geo_lat = - 12, geo_lon = - 70, geo_state = None\<rparr>)
      else if place = ''Omega''
      then Inr (Some \<lparr>geo_name = ''Omega'', geo_lat = 12, geo_lon = 110, geo_state = None\<rparr>)
      else Inr None)"

definition opposite_env :: "(real \<times> real) list env" where
  "opposite_env =
     (fixed_env opposite_places None (always_named ''Midway'') clear_weather)
       \<lparr>float_rounding := antipodal_rounding\<rparr>"

section \<open>Properties\<close>

subsection \<open>Strings\<close>

lemma lower_Nil: "lower [] = []"
  by (simp add: lower_def)

lemma any_word_in_set: "any_word_in ws text = (\<exists>w \<in> set ws. str_in w text)"
  by (simp add: any_word_in_def list_ex_iff)

text \<open>\<open>str_in\<close> is the substring test.\<close>

lemma starts_with_iff: "starts_with s p = (\<exists>post. s = p @ post)"
  by (induction s p rule: starts_with.induct) auto

lemma str_in_iff: "str_in word s = (\<exists>pre post. s = pre @ word @ post)"
proof (induction s)
  case Nil
  then show ?case by auto
next
  case (Cons c cs)
  have "(\<exists>pre post. c # cs = pre @ word @ post) =
        ((\<exists>post. c # cs = word @ post) \<or> (\<exists>pre post. cs = pre @ word @ post))"
  proof
    assume "\<exists>pre post. c # cs = pre @ word @ post"
    then obtain pre post where e: "c # cs = pre @ word @ post"
      by blast
    show "(\<exists>post. c # cs = word @ post) \<or> (\<exists>pre post. cs = pre @ word @ post)"
    proof (cases pre)
      case Nil
      with e show ?thesis by auto
    next
      case (Cons a pre')
      with e have "cs = pre' @ word @ post" by simp
      then show ?thesis by blast
    qed
  next
    assume "(\<exists>post. c # cs = word @ post) \<or> (\<exists>pre post. cs = pre @ word @ post)"
    then show "\<exists>pre post. c # cs = pre @ word @ post"
    proof
      assume "\<exists>post. c # cs = word @ post"
      then obtain post where "c # cs = [] @ word @ post" by auto
      then show ?thesis by blast
    next
      assume "\<exists>pre post. cs = pre @ word @ post"
      then obtain pre post where "c # cs = (c # pre) @ word @ post" by auto
      then show ?thesis by blast
    qed
  qed
  then show ?case
    using Cons.IH by (simp add: starts_with_iff)
qed

lemma get_or_simps: "get_or None d = d" "get_or (Some x) d = x"
  by (simp_all add: get_or_def)

subsection \<open>The severity classifier\<close>

text \<open>
  Claim C1. The classifier always returns one of the four levels, and it returns the first
  tier, in the order critical, high, medium, low, one of whose conditions holds: a keyword
  of the tier occurs in the lower-cased condition text, or the temperature or the wind is
  beyond the tier's threshold. In particular a critical keyword gives \<open>critical\<close>
  whatever the temperature and the wind are.
\<close>

theorem assess_weather_severity_tiers:
  "(let c = lower (get_or (condition weather) '''');
        w = get_or (wind_speed weather) 0;
        t = get_or (temperature weather) 25
    in assess_weather_severity weather \<in> {''low'', ''medium'', ''high'', ''critical''} \<and>
       assess_weather_severity weather =
         (if (\<exists>k \<in> {''thunderstorm'', ''tornado'', ''hurricane'', ''cyclone'', ''severe storm''}.
                str_in k c) \<or> t > 48 \<or> t < - 5 \<or> w > 60 then ''critical''
          else if (\<exists>k \<in> {''heavy rain'', ''heavy snow'', ''blizzard'', ''hail'', ''ice storm''}.
                str_in k c) \<or> t > 43 \<or> t < 2 \<or> w > 40 then ''high''
          else if (\<exists>k \<in> {''moderate rain'', ''light snow'', ''fog'', ''mist''}.
                str_in k c) \<or> t > 38 \<or> t < 8 \<or> w > 25 then ''medium''
          else ''low'') \<and>
       ((\<exists>k \<in> {''thunderstorm'', ''tornado'', ''hurricane'', ''cyclone'', ''severe storm''}.
           str_in k c) \<longrightarrow> assess_weather_severity weather = ''critical''))"
  unfolding Let_def assess_weather_severity_def any_word_in_set
    critical_words_def high_words_def medium_words_def
  by (simp del: str_in.simps)

theorem assess_weather_severity_tiers_witness:
  "str_in ''thunderstorm'' (lower ''Thunderstorm'') \<and>
   assess_weather_severity
     \<lparr>success = True, condition = Some ''Thunderstorm'', wind_speed = Some 10,
      temperature = Some 25\<rparr> = ''critical''"
  using assess_weather_severity_tiers
    [of "\<lparr>success = True, condition = Some ''Thunderstorm'', wind_speed = Some 10,
          temperature = Some 25\<rparr>"]
  by (simp add: Let_def get_or_def lower_def lower_char_def)

text \<open>
  Claim C9. An absent condition text counts as the empty string, an absent wind speed as 0
  and an absent temperature as 25; with all three absent the severity is \<open>low\<close>.
\<close>

theorem assess_weather_severity_defaults:
  "assess_weather_severity (weather\<lparr>condition := None\<rparr>) =
     assess_weather_severity (weather\<lparr>condition := Some ''''\<rparr>) \<and>
   assess_weather_severity (weather\<lparr>wind_speed := None\<rparr>) =
     assess_weather_severity (weather\<lparr>wind_speed := Some 0\<rparr>) \<and>
   assess_weather_severity (weather\<lparr>temperature := None\<rparr>) =
     assess_weather_severity (weather\<lparr>temperature := Some 25\<rparr>) \<and>
   assess_weather_severity
     \<lparr>success = ok, condition = None, wind_speed = None, temperature = None\<rparr> = ''low''"
  by (simp add: assess_weather_severity_def get_or_def lower_def any_word_in_def
      critical_words_def high_words_def medium_words_def)


subsection \<open>The recommendation\<close>

lemma get_or_low_eq:
  "k \<noteq> ''low'' \<Longrightarrow> (get_or s ''low'' = k) = (s = Some k)"
  by (cases s) (auto simp: get_or_def)

lemma count_severities_valid:
  assumes "\<forall>c \<in> set cw. get_or (severity c) ''low'' \<in> {''low'', ''medium'', ''high'', ''critical''}"
    and "\<forall>k \<in> {''low'', ''medium'', ''high'', ''critical''}. m k \<noteq> None"
  shows "\<exists>m'. count_severities cw m = Inr m' \<and>
           (\<forall>k. get_or (m' k) 0 =
                 get_or (m k) 0 + length (filter (\<lambda>c. get_or (severity c) ''low'' = k) cw))"
  using assms
proof (induction cw arbitrary: m)
  case Nil
  then show ?case by simp
next
  case (Cons c cw)
  define sev where "sev = get_or (severity c) ''low''"
  have sev: "sev \<in> {''low'', ''medium'', ''high'', ''critical''}"
    using Cons.prems(1) by (simp add: sev_def)
  then obtain n where n: "m sev = Some n"
    using Cons.prems(2) by blast
  let ?m = "m(sev \<mapsto> n + 1)"
  have "\<forall>k \<in> {''low'', ''medium'', ''high'', ''critical''}. ?m k \<noteq> None"
    using Cons.prems(2) by simp
  moreover have "\<forall>c \<in> set cw. get_or (severity c) ''low'' \<in> {''low'', ''medium'', ''high'', ''critical''}"
    using Cons.prems(1) by simp
  ultimately obtain m' where m': "count_severities cw ?m = Inr m'"
    "\<forall>k. get_or (m' k) 0 =
          get_or (?m k) 0 + length (filter (\<lambda>c. get_or (severity c) ''low'' = k) cw)"
    using Cons.IH [of ?m] by blast
  have "count_severities (c # cw) m = Inr m'"
    using n m'(1) by (simp add: sev_def [symmetric])
  moreover have "get_or (m' k) 0 =
      get_or (m k) 0 + length (filter (\<lambda>c. get_or (severity c) ''low'' = k) (c # cw))" for k
    using m'(2) [rule_format, of k] n
    by (cases "k = sev") (simp_all add: sev_def [symmetric] get_or_simps)
  ultimately show ?case by blast
qed

lemma find_filter: "find P xs = (case filter P xs of [] \<Rightarrow> None | x # _ \<Rightarrow> Some x)"
  by (induction xs) auto

lemma half_le: "(real t * 0.5 \<le> real m) = (t \<le> 2 * m)"
proof -
  have "(real t * 0.5 \<le> real m) = (real t \<le> real (2 * m))"
    by (simp add: field_simps)
  then show ?thesis
    by (simp only: of_nat_le_iff)
qed

lemma recommendation_cases:
  assumes "\<forall>c \<in> set city_weather.
             get_or (severity c) ''low'' \<in> {''low'', ''medium'', ''high'', ''critical''}"
  shows "generate_route_recommendation city_weather warnings severe =
     Inr (let crit = filter (\<lambda>c. severity c = Some ''critical'') city_weather;
              high = filter (\<lambda>c. severity c = Some ''high'') city_weather;
              medium = filter (\<lambda>c. severity c = Some ''medium'') city_weather
          in if city_weather = [] then msg_no_data
             else if crit \<noteq> [] then msg_do_not_travel (map city crit)
             else if 2 \<le> length high then msg_not_recommended (map city high)
             else if length high = 1 then msg_caution (city (hd high))
             else if length city_weather \<le> 2 * length medium then msg_safe_with_caution
             else msg_excellent)"
proof (cases "city_weather = []")
  case True
  then show ?thesis by (simp add: generate_route_recommendation_def)
next
  case False
  have init: "\<forall>k \<in> {''low'', ''medium'', ''high'', ''critical''}. severity_counts_init k \<noteq> None"
    by (simp add: severity_counts_init_def)
  obtain m where m: "count_severities city_weather severity_counts_init = Inr m"
    and cnt: "\<And>k. get_or (m k) 0 = get_or (severity_counts_init k) 0 +
                 length (filter (\<lambda>c. get_or (severity c) ''low'' = k) city_weather)"
    using count_severities_valid [OF assms init] by blast
  have c: "get_or (m ''critical'') 0 =
      length (filter (\<lambda>c. severity c = Some ''critical'') city_weather)"
    using cnt [of "''critical''"] by (simp add: get_or_low_eq severity_counts_init_def get_or_simps)
  have h: "get_or (m ''high'') 0 =
      length (filter (\<lambda>c. severity c = Some ''high'') city_weather)"
    using cnt [of "''high''"] by (simp add: get_or_low_eq severity_counts_init_def get_or_simps)
  have md: "get_or (m ''medium'') 0 =
      length (filter (\<lambda>c. severity c = Some ''medium'') city_weather)"
    using cnt [of "''medium''"] by (simp add: get_or_low_eq severity_counts_init_def get_or_simps)
  show ?thesis
    using False
    by (simp add: generate_route_recommendation_def m c h md Let_def half_le find_filter
        split: list.splits)
qed


text \<open>\<open>join\<close> puts every element into its result.\<close>

lemma str_in_middle: "str_in word (pre @ word @ post)"
  by (auto simp: str_in_iff)

lemma str_in_join: "x \<in> set xs \<Longrightarrow> str_in x (join sep xs)"
proof (induction sep xs rule: join.induct)
  case (1 sep)
  then show ?case by simp
next
  case (2 sep y)
  then show ?case
    using str_in_middle [of x "[]" "[]"] by simp
next
  case (3 sep y z zs)
  show ?case
  proof (cases "x = y")
    case True
    then show ?thesis
      using str_in_middle [of y "[]" "sep @ join sep (z # zs)"] by simp
  next
    case False
    with "3.prems" have "str_in x (join sep (z # zs))"
      using "3.IH" by simp
    then obtain pre post where "join sep (z # zs) = pre @ x @ post"
      by (auto simp: str_in_iff)
    then have "join sep (y # z # zs) = (y @ sep @ pre) @ x @ post"
      by simp
    then show ?thesis
      using str_in_middle [of x "y @ sep @ pre" post] by simp
  qed
qed

lemma join_two: "join sep [x, y] = x @ sep @ y"
  by simp

lemma recommendation_text:
  assumes "\<forall>c \<in> set city_weather.
             get_or (severity c) ''low'' \<in> {''low'', ''medium'', ''high'', ''critical''}"
  shows "generate_route_recommendation city_weather warnings severe =
     Inr (let crit = filter (\<lambda>c. severity c = Some ''critical'') city_weather;
              high = filter (\<lambda>c. severity c = Some ''high'') city_weather;
              medium = filter (\<lambda>c. severity c = Some ''medium'') city_weather
          in if city_weather = [] then
               ''Unable to generate recommendation - no weather data available.''
             else if crit \<noteq> [] then
               [CHR 0xF0, CHR 0x9F, CHR 0x9A, CHR 0xA8] @
               '' DO NOT TRAVEL - Critical weather conditions detected in '' @
               join '', '' (map city crit) @
               ''. Extreme weather poses serious safety risks (severe storms, extreme temperatures, or hurricane-force winds). POSTPONE TRAVEL or take alternative route.''
             else if 2 \<le> length high then
               [CHR 0xE2, CHR 0x9A, CHR 0xA0, CHR 0xEF, CHR 0xB8, CHR 0x8F] @
               '' TRAVEL NOT RECOMMENDED - Hazardous weather in '' @
               join '', '' (map city high) @
               ''. Heavy rain, snow, or very strong winds expected. Consider delaying travel until conditions improve.''
             else if length high = 1 then
               [CHR 0xE2, CHR 0x9A, CHR 0xA0, CHR 0xEF, CHR 0xB8, CHR 0x8F] @
               '' CAUTION ADVISED - Hazardous weather expected in '' @ city (hd high) @
               ''. Travel possible but drive carefully through this area. Monitor weather updates.''
             else if length city_weather \<le> 2 * length medium then
               [CHR 0xE2, CHR 0x9C, CHR 0x85] @
               '' TRAVEL SAFE WITH CAUTION - Some areas may have moderate rain, fog, or winds. Normal travel possible, just drive carefully and stay alert to changing conditions.''
             else
               [CHR 0xE2, CHR 0x9C, CHR 0x85] @
               '' EXCELLENT CONDITIONS - Weather is favorable for travel along this route. Safe journey expected. Enjoy your trip!'')"
  unfolding recommendation_cases [OF assms]
  by (simp add: Let_def msg_no_data_def msg_do_not_travel_def msg_not_recommended_def
      msg_caution_def msg_safe_with_caution_def msg_excellent_def
      sign_alarm_def sign_warning_def sign_check_def)

lemma str_in_wrap: "str_in x m \<Longrightarrow> str_in x (a @ m @ b)"
proof -
  assume "str_in x m"
  then obtain pre post where "m = pre @ x @ post"
    by (auto simp: str_in_iff)
  then have "a @ m @ b = (a @ pre) @ x @ (post @ b)"
    by simp
  then show ?thesis
    using str_in_middle [of x "a @ pre" "post @ b"] by simp
qed

lemma names_in_do_not_travel: "x \<in> set xs \<Longrightarrow> str_in x (msg_do_not_travel xs)"
  using str_in_wrap [OF str_in_join, of x xs
      "sign_alarm @ '' DO NOT TRAVEL - Critical weather conditions detected in ''" "'', ''"]
  by (simp add: msg_do_not_travel_def)

lemma names_in_not_recommended: "x \<in> set xs \<Longrightarrow> str_in x (msg_not_recommended xs)"
  using str_in_wrap [OF str_in_join, of x xs
      "sign_warning @ '' TRAVEL NOT RECOMMENDED - Hazardous weather in ''" "'', ''"]
  by (simp add: msg_not_recommended_def)

lemma name_in_caution: "str_in x (msg_caution x)"
  using str_in_middle
      [of x "sign_warning @ '' CAUTION ADVISED - Hazardous weather expected in ''"]
  by (simp add: msg_caution_def)

lemma recommendation_names:
  assumes "\<forall>c \<in> set city_weather.
             get_or (severity c) ''low'' \<in> {''low'', ''medium'', ''high'', ''critical''}"
  shows "(\<forall>c \<in> set city_weather. severity c = Some ''critical'' \<longrightarrow>
            (\<exists>msg. generate_route_recommendation city_weather warnings severe = Inr msg \<and>
                   str_in (city c) msg)) \<and>
         ((\<forall>c \<in> set city_weather. severity c \<noteq> Some ''critical'') \<longrightarrow>
            (\<forall>c \<in> set city_weather. severity c = Some ''high'' \<longrightarrow>
               (\<exists>msg. generate_route_recommendation city_weather warnings severe = Inr msg \<and>
                      str_in (city c) msg)))"
proof (intro conjI ballI impI)
  fix c
  assume c: "c \<in> set city_weather" "severity c = Some ''critical''"
  then have "city c \<in> set (map city (filter (\<lambda>c. severity c = Some ''critical'') city_weather))"
    by simp
  then have "str_in (city c)
      (msg_do_not_travel (map city (filter (\<lambda>c. severity c = Some ''critical'') city_weather)))"
    by (rule names_in_do_not_travel)
  moreover have "filter (\<lambda>c. severity c = Some ''critical'') city_weather \<noteq> []"
    using c by (auto simp: filter_empty_conv)
  moreover have "city_weather \<noteq> []"
    using c by auto
  ultimately show "\<exists>msg. generate_route_recommendation city_weather warnings severe = Inr msg \<and>
      str_in (city c) msg"
    by (simp add: recommendation_cases [OF assms] Let_def)
next
  fix c
  assume none: "\<forall>c \<in> set city_weather. severity c \<noteq> Some ''critical''"
    and c: "c \<in> set city_weather" "severity c = Some ''high''"
  let ?high = "filter (\<lambda>c. severity c = Some ''high'') city_weather"
  have crit: "filter (\<lambda>c. severity c = Some ''critical'') city_weather = []"
    using none by (simp add: filter_empty_conv)
  have mem: "c \<in> set ?high"
    using c by simp
  then have pos: "?high \<noteq> []"
    by (metis empty_iff empty_set)
  have ne: "city_weather \<noteq> []"
    using c by auto
  show "\<exists>msg. generate_route_recommendation city_weather warnings severe = Inr msg \<and>
      str_in (city c) msg"
  proof (cases "2 \<le> length ?high")
    case True
    have "str_in (city c) (msg_not_recommended (map city ?high))"
      using mem by (intro names_in_not_recommended) simp
    then show ?thesis
      using True ne crit by (simp add: recommendation_cases [OF assms] Let_def)
  next
    case False
    have "0 < length ?high"
      using pos by simp
    with False have one: "length ?high = 1"
      by arith
    then have "?high = [hd ?high]"
      by (cases ?high) auto
    with mem have "c = hd ?high"
      by (metis empty_iff empty_set set_ConsD)
    then have "str_in (city c) (msg_caution (city (hd ?high)))"
      using name_in_caution [of "city c"] by simp
    then show ?thesis
      using one ne crit by (simp add: recommendation_cases [OF assms] Let_def)
  qed
qed

text \<open>
  Claim C2. Where every assessment has one of the four severities (an absent one counting
  as \<open>low\<close>), the recommendation is chosen in this order: no assessment at all gives the
  message that no weather data is available; a critical one gives the do-not-travel message
  naming all critical cities; two or more high ones give the travel-not-recommended message
  naming all high cities; exactly one gives the caution message naming that city; medium
  ones that are at least half of all assessments give the safe-with-caution message;
  anything else the excellent-conditions message. The messages are given in full, the
  three signs at their heads as UTF-8 bytes, and the name of every critical city (of every
  high city, when none is critical) is shown to occur in the message returned.
\<close>

theorem recommendation_priority:
  assumes "\<forall>c \<in> set city_weather.
             get_or (severity c) ''low'' \<in> {''low'', ''medium'', ''high'', ''critical''}"
  shows "generate_route_recommendation city_weather warnings severe =
     Inr (let crit = filter (\<lambda>c. severity c = Some ''critical'') city_weather;
              high = filter (\<lambda>c. severity c = Some ''high'') city_weather;
              medium = filter (\<lambda>c. severity c = Some ''medium'') city_weather
          in if city_weather = [] then
               ''Unable to generate recommendation - no weather data available.''
             else if crit \<noteq> [] then
               [CHR 0xF0, CHR 0x9F, CHR 0x9A, CHR 0xA8] @
               '' DO NOT TRAVEL - Critical weather conditions detected in '' @
               join '', '' (map city crit) @
               ''. Extreme weather poses serious safety risks (severe storms, extreme temperatures, or hurricane-force winds). POSTPONE TRAVEL or take alternative route.''
             else if 2 \<le> length high then
               [CHR 0xE2, CHR 0x9A, CHR 0xA0, CHR 0xEF, CHR 0xB8, CHR 0x8F] @
               '' TRAVEL NOT RECOMMENDED - Hazardous weather in '' @
               join '', '' (map city high) @
               ''. Heavy rain, snow, or very strong winds expected. Consider delaying travel until conditions improve.''
             else if length high = 1 then
               [CHR 0xE2, CHR 0x9A, CHR 0xA0, CHR 0xEF, CHR 0xB8, CHR 0x8F] @
               '' CAUTION ADVISED - Hazardous weather expected in '' @ city (hd high) @
               ''. Travel possible but drive carefully through this area. Monitor weather updates.''
             else if length city_weather \<le> 2 * length medium then
               [CHR 0xE2, CHR 0x9C, CHR 0x85] @
               '' TRAVEL SAFE WITH CAUTION - Some areas may have moderate rain, fog, or winds. Normal travel possible, just drive carefully and stay alert to changing conditions.''
             else
               [CHR 0xE2, CHR 0x9C, CHR 0x85] @
               '' EXCELLENT CONDITIONS - Weather is favorable for travel along this route. Safe journey expected. Enjoy your trip!'') \<and>
     (\<forall>c \<in> set city_weather. severity c = Some ''critical'' \<longrightarrow>
        (\<exists>msg. generate_route_recommendation city_weather warnings severe = Inr msg \<and>
               str_in (city c) msg)) \<and>
     ((\<forall>c \<in> set city_weather. severity c \<noteq> Some ''critical'') \<longrightarrow>
        (\<forall>c \<in> set city_weather. severity c = Some ''high'' \<longrightarrow>
           (\<exists>msg. generate_route_recommendation city_weather warnings severe = Inr msg \<and>
                  str_in (city c) msg)))"
  using recommendation_text [OF assms, of warnings severe]
    recommendation_names [OF assms, of warnings severe]
  by (rule conjI)

text \<open>
  Two assessments, both high: the message names Salem and Hosur.
\<close>

theorem recommendation_priority_witness:
  "generate_route_recommendation
     [\<lparr>city = ''Salem'', cd_state = ''Tamil Nadu'', distance_km = 0,
       cd_weather = \<lparr>success = True, condition = Some ''Heavy Rain'', wind_speed = Some 12,
                     temperature = Some 24\<rparr>,
       severity = Some ''high'', cd_is_start = True, cd_is_end = False\<rparr>,
      \<lparr>city = ''Hosur'', cd_state = ''Tamil Nadu'', distance_km = 160,
       cd_weather = \<lparr>success = True, condition = Some ''Hail'', wind_speed = Some 20,
                     temperature = Some 21\<rparr>,
       severity = Some ''high'', cd_is_start = False, cd_is_end = True\<rparr>] [] [] =
   Inr ([CHR 0xE2, CHR 0x9A, CHR 0xA0, CHR 0xEF, CHR 0xB8, CHR 0x8F] @
        '' TRAVEL NOT RECOMMENDED - Hazardous weather in Salem, Hosur. Heavy rain, snow, or very strong winds expected. Consider delaying travel until conditions improve.'')"
  using recommendation_priority
    [of "[\<lparr>city = ''Salem'', cd_state = ''Tamil Nadu'', distance_km = 0,
       cd_weather = \<lparr>success = True, condition = Some ''Heavy Rain'', wind_speed = Some 12,
                     temperature = Some 24\<rparr>,
       severity = Some ''high'', cd_is_start = True, cd_is_end = False\<rparr>,
      \<lparr>city = ''Hosur'', cd_state = ''Tamil Nadu'', distance_km = 160,
       cd_weather = \<lparr>success = True, condition = Some ''Hail'', wind_speed = Some 20,
                     temperature = Some 21\<rparr>,
       severity = Some ''high'', cd_is_start = False, cd_is_end = True\<rparr>]" "[]" "[]"]
  by (simp add: get_or_simps)

subsection \<open>Geometry\<close>

lemma radians_diff: "radians (a - b) = radians a - radians b"
  by (simp add: radians_def field_simps)

lemma radians_swap: "radians (a - b) / 2 = - (radians (b - a) / 2)"
  by (simp add: radians_def field_simps)

lemma radians_neg: "radians (- x) = - radians x"
  by (simp add: radians_def)

lemma radians_zero: "radians 0 = 0"
  by (simp add: radians_def)

lemma radians_180: "radians 180 = pi"
  by (simp add: radians_def)

lemma radians_mono: "a \<le> b \<Longrightarrow> radians a \<le> radians b"
  by (simp add: radians_def divide_right_mono mult_right_mono)

lemma radians_quarter: "\<bar>x\<bar> \<le> 90 \<Longrightarrow> - (pi / 2) \<le> radians x \<and> radians x \<le> pi / 2"
  using radians_mono [of x 90] radians_mono [of "- 90" x] by (simp add: radians_def)

lemma haversine_a_sym: "haversine_a lat1 lon1 lat2 lon2 = haversine_a lat2 lon2 lat1 lon1"
proof -
  have "(sin (radians (lat2 - lat1) / 2))\<^sup>2 = (sin (radians (lat1 - lat2) / 2))\<^sup>2"
    by (simp add: radians_swap [of lat2 lat1])
  moreover have "(sin (radians (lon2 - lon1) / 2))\<^sup>2 = (sin (radians (lon1 - lon2) / 2))\<^sup>2"
    by (simp add: radians_swap [of lon2 lon1])
  ultimately show ?thesis
    by (simp add: haversine_a_def Let_def mult.commute)
qed

lemma haversine_a_self: "haversine_a la lo la lo = 0"
  by (simp add: haversine_a_def radians_def)

lemma sin_half_squared: "(sin (x / 2))\<^sup>2 = (1 - cos x) / 2" for x :: real
proof -
  have "cos x = 1 - 2 * (sin (x / 2))\<^sup>2"
    using cos_double [of "x / 2"] by (simp add: cos_squared_eq)
  then show ?thesis by simp
qed

lemma haversine_a_range:
  "0 \<le> haversine_a lat1 lon1 lat2 lon2 \<and> haversine_a lat1 lon1 lat2 lon2 \<le> 1"
proof -
  define h where "h = (sin (radians (lat2 - lat1) / 2))\<^sup>2"
  define s where "s = (sin (radians (lon2 - lon1) / 2))\<^sup>2"
  define p where "p = cos (radians lat1) * cos (radians lat2)"
  define q where "q = cos (radians lat1 + radians lat2)"
  have a: "haversine_a lat1 lon1 lat2 lon2 = h + p * s"
    by (simp add: haversine_a_def Let_def h_def s_def p_def)
  have h: "h = (1 - cos (radians lat1 - radians lat2)) / 2"
    unfolding h_def sin_half_squared radians_diff
    using cos_minus [of "radians lat1 - radians lat2"] by simp
  have p: "p = (1 - 2 * h + q) / 2"
    unfolding p_def q_def h cos_times_cos by (simp add: field_simps)
  have q: "- 1 \<le> q" "q \<le> 1"
    by (simp_all add: q_def)
  have h0: "0 \<le> h" and s0: "0 \<le> s"
    by (simp_all add: h_def s_def)
  have s1: "s \<le> 1"
    unfolding s_def by (simp add: sin_squared_eq)
  have h1: "h \<le> 1"
    unfolding h_def by (simp add: sin_squared_eq)
  have lo: "- h \<le> p" and hi: "p \<le> 1 - h"
    using p q by simp_all
  have "- h * s \<le> p * s"
    using lo s0 by (rule mult_right_mono)
  moreover have "0 \<le> h * (1 - s)"
    using h0 s1 by simp
  ultimately have ge: "0 \<le> h + p * s"
    by (simp add: algebra_simps)
  have "p * s \<le> (1 - h) * s"
    using hi s0 by (rule mult_right_mono)
  moreover have "(1 - h) * s \<le> (1 - h) * 1"
    using h1 s1 by (intro mult_left_mono) simp_all
  ultimately have le: "h + p * s \<le> 1"
    by simp
  from ge le a show ?thesis by simp
qed

lemma atan2_sqrt:
  assumes "0 \<le> a" "a \<le> 1"
  shows "0 \<le> atan2 (sqrt a) (sqrt (1 - a)) \<and> atan2 (sqrt a) (sqrt (1 - a)) \<le> pi / 2 \<and>
         sin (atan2 (sqrt a) (sqrt (1 - a))) = sqrt a"
proof (cases "a = 1")
  case True
  then show ?thesis by (simp add: atan2_def)
next
  case False
  with assms have pos: "0 < 1 - a" by simp
  define t where "t = sqrt a / sqrt (1 - a)"
  have t0: "0 \<le> t" using assms pos by (simp add: t_def)
  have eq: "atan2 (sqrt a) (sqrt (1 - a)) = arctan t"
    using pos by (simp add: atan2_def t_def)
  have "1 + t\<^sup>2 = 1 / (1 - a)"
    using assms pos by (simp add: t_def power_divide field_simps)
  then have "sqrt (1 + t\<^sup>2) = 1 / sqrt (1 - a)"
    by (simp add: real_sqrt_divide)
  then have "sin (arctan t) = sqrt a"
    using pos by (simp add: sin_arctan t_def)
  moreover have "arctan t \<le> pi / 2"
    using arctan_ubound [of t] by simp
  ultimately show ?thesis
    using t0 eq by simp
qed

lemma great_circle_nonneg: "0 \<le> great_circle lat1 lon1 lat2 lon2"
  using atan2_sqrt [of "haversine_a lat1 lon1 lat2 lon2"] haversine_a_range [of lat1 lon1 lat2 lon2]
  by (simp add: great_circle_def Let_def)

lemma great_circle_le: "great_circle lat1 lon1 lat2 lon2 \<le> 6371 * pi"
  using atan2_sqrt [of "haversine_a lat1 lon1 lat2 lon2"] haversine_a_range [of lat1 lon1 lat2 lon2]
  by (simp add: great_circle_def Let_def)

lemma great_circle_sym:
  "great_circle lat1 lon1 lat2 lon2 = great_circle lat2 lon2 lat1 lon1"
  by (simp add: great_circle_def haversine_a_sym [of lat1 lon1 lat2 lon2])

lemma great_circle_self: "great_circle la lo la lo = 0"
  by (simp add: great_circle_def haversine_a_self atan2_def)

text \<open>
  Between two valid latitudes the distance is at least the distance along a meridian, and
  on one meridian it is exactly that.
\<close>

lemma great_circle_ge_lat:
  assumes "\<bar>lat1\<bar> \<le> 90" "\<bar>lat2\<bar> \<le> 90"
  shows "6371 * radians \<bar>lat2 - lat1\<bar> \<le> great_circle lat1 lon1 lat2 lon2"
proof -
  define a where "a = haversine_a lat1 lon1 lat2 lon2"
  define \<theta> where "\<theta> = atan2 (sqrt a) (sqrt (1 - a))"
  define y where "y = radians \<bar>lat2 - lat1\<bar> / 2"
  have ar: "0 \<le> a" "a \<le> 1"
    using haversine_a_range [of lat1 lon1 lat2 lon2] by (simp_all add: a_def)
  have th: "0 \<le> \<theta>" "\<theta> \<le> pi / 2" "sin \<theta> = sqrt a"
    using atan2_sqrt [OF ar] by (simp_all add: \<theta>_def)
  have y: "0 \<le> y" "y \<le> pi / 2"
    using assms by (simp_all add: y_def radians_def field_simps)
  have c1: "0 \<le> cos (radians lat1)"
    using assms(1) radians_quarter [of lat1] by (intro cos_ge_zero) simp_all
  have c2: "0 \<le> cos (radians lat2)"
    using assms(2) radians_quarter [of lat2] by (intro cos_ge_zero) simp_all
  have "(sin y)\<^sup>2 = (sin (radians (lat2 - lat1) / 2))\<^sup>2"
  proof (cases "0 \<le> lat2 - lat1")
    case True
    then show ?thesis by (simp add: y_def)
  next
    case False
    then have "\<bar>lat2 - lat1\<bar> = - (lat2 - lat1)"
      by simp
    then have "y = - (radians (lat2 - lat1) / 2)"
      unfolding y_def by (simp only: radians_neg minus_divide_left)
    then show ?thesis by simp
  qed
  also have "\<dots> \<le> a"
    using c1 c2 by (simp add: a_def haversine_a_def Let_def)
  finally have "(sin y)\<^sup>2 \<le> a" .
  then have "sqrt ((sin y)\<^sup>2) \<le> sqrt a"
    by (rule real_sqrt_le_mono)
  moreover have "0 \<le> sin y"
    using y by (intro sin_ge_zero) (simp_all add: field_simps)
  ultimately have "sin y \<le> sin \<theta>"
    using th by simp
  then have "y \<le> \<theta>"
    using y th by (subst (asm) sin_mono_le_eq) simp_all
  moreover have "great_circle lat1 lon1 lat2 lon2 = 6371 * (2 * \<theta>)"
    by (simp add: great_circle_def Let_def \<theta>_def a_def)
  ultimately show ?thesis
    by (simp add: y_def)
qed

lemma great_circle_meridian:
  assumes "\<bar>lat2 - lat1\<bar> \<le> 180"
  shows "great_circle lat1 lo lat2 lo = 6371 * radians \<bar>lat2 - lat1\<bar>"
proof -
  define a where "a = haversine_a lat1 lo lat2 lo"
  define \<theta> where "\<theta> = atan2 (sqrt a) (sqrt (1 - a))"
  define y where "y = radians \<bar>lat2 - lat1\<bar> / 2"
  have ar: "0 \<le> a" "a \<le> 1"
    using haversine_a_range [of lat1 lo lat2 lo] by (simp_all add: a_def)
  have th: "0 \<le> \<theta>" "\<theta> \<le> pi / 2" "sin \<theta> = sqrt a"
    using atan2_sqrt [OF ar] by (simp_all add: \<theta>_def)
  have y: "0 \<le> y" "y \<le> pi / 2"
    using radians_mono [OF assms] radians_mono [of 0 "\<bar>lat2 - lat1\<bar>"]
    by (simp_all add: y_def radians_180 radians_zero)
  have "(sin y)\<^sup>2 = (sin (radians (lat2 - lat1) / 2))\<^sup>2"
  proof (cases "0 \<le> lat2 - lat1")
    case True
    then show ?thesis by (simp add: y_def)
  next
    case False
    then have "\<bar>lat2 - lat1\<bar> = - (lat2 - lat1)"
      by simp
    then have "y = - (radians (lat2 - lat1) / 2)"
      unfolding y_def by (simp only: radians_neg minus_divide_left)
    then show ?thesis by simp
  qed
  also have "\<dots> = a"
    by (simp add: a_def haversine_a_def Let_def radians_zero)
  finally have "sqrt ((sin y)\<^sup>2) = sqrt a"
    by simp
  moreover have "0 \<le> sin y"
    using y by (intro sin_ge_zero) (simp_all add: field_simps)
  ultimately have sy: "sin y = sin \<theta>"
    using th by simp
  have eq: "\<theta> = y"
    by (rule sin_inj_pi) (use y th sy in simp_all)
  have "great_circle lat1 lo lat2 lo = 6371 * (2 * \<theta>)"
    by (simp add: great_circle_def Let_def \<theta>_def a_def)
  also have "\<dots> = 6371 * (2 * y)"
    by (simp only: eq)
  also have "\<dots> = 6371 * radians \<bar>lat2 - lat1\<bar>"
    by (simp add: y_def)
  finally show ?thesis .
qed

text \<open>The distance as the program computes it, with its rounding.\<close>

lemma calculate_distance_exact:
  "calculate_distance exact lat1 lon1 lat2 lon2 = Inr (great_circle lat1 lon1 lat2 lon2)"
  using haversine_a_range [of lat1 lon1 lat2 lon2]
  by (simp add: calculate_distance_def great_circle_def exact_def Let_def)

lemma calculate_distance_nonneg:
  assumes "calculate_distance rounding lat1 lon1 lat2 lon2 = Inr d"
  shows "0 \<le> d"
proof -
  define a where "a = haversine_a lat1 lon1 lat2 lon2 + rounding lat1 lon1 lat2 lon2"
  from assms have a: "0 \<le> a" "a \<le> 1" and d: "d = 6371 * (2 * atan2 (sqrt a) (sqrt (1 - a)))"
    by (auto simp: calculate_distance_def Let_def a_def split: if_splits)
  show ?thesis
    using atan2_sqrt [OF a] by (simp add: d)
qed

lemma calculate_distance_raises:
  "1 < haversine_a lat1 lon1 lat2 lon2 + rounding lat1 lon1 lat2 lon2 \<Longrightarrow>
     calculate_distance rounding lat1 lon1 lat2 lon2 = Inl (ValueError ''math domain error'')"
  by (simp add: calculate_distance_def Let_def)

lemma calculate_distance_self:
  "rounding la lo la lo = 0 \<Longrightarrow> calculate_distance rounding la lo la lo = Inr 0"
  by (simp add: calculate_distance_def Let_def haversine_a_self atan2_def)

lemma calculate_distance_sym:
  "rounding lat1 lon1 lat2 lon2 = rounding lat2 lon2 lat1 lon1 \<Longrightarrow>
     calculate_distance rounding lat1 lon1 lat2 lon2 =
     calculate_distance rounding lat2 lon2 lat1 lon1"
  by (simp add: calculate_distance_def haversine_a_sym [of lat1 lon1 lat2 lon2])

lemma haversine_a_antipodal:
  "haversine_a (- 12) (- 70) 12 110 = 1" "haversine_a 12 110 (- 12) (- 70) = 1"
proof -
  have "haversine_a (- 12) (- 70) 12 110 =
      (sin (radians 12))\<^sup>2 + cos (radians (- 12)) * cos (radians 12) * (sin (pi / 2))\<^sup>2"
    by (simp add: haversine_a_def Let_def radians_def)
  also have "\<dots> = (sin (radians 12))\<^sup>2 + (cos (radians 12))\<^sup>2"
    by (simp add: radians_neg power2_eq_square)
  finally show "haversine_a (- 12) (- 70) 12 110 = 1"
    by simp
  then show "haversine_a 12 110 (- 12) (- 70) = 1"
    by (simp add: haversine_a_sym [of 12 110 "- 12" "- 70"])
qed

text \<open>
  Claim C8 at a failing input. The claim is that the distance of any two coordinates is the
  same in both orders. At the opposite points (-12, -70) and (12, 110) the program returns
  no distance in either order: the term \<open>a\<close>, 1 in exact arithmetic, is computed as
  \<open>1 + 1 / 2 ^ 52\<close>, and the square root of \<open>1 - a\<close> raises.
\<close>

theorem calculate_distance_antipodal_error:
  "calculate_distance antipodal_rounding (- 12) (- 70) 12 110 =
     Inl (ValueError ''math domain error'') \<and>
   calculate_distance antipodal_rounding 12 110 (- 12) (- 70) =
     Inl (ValueError ''math domain error'')"
  by (simp add: calculate_distance_raises haversine_a_antipodal antipodal_rounding_def)

text \<open>
  Claim C7, as the code has it. A point that coincides with the start or with the end is
  near the route for every positive threshold, where the distance between the start and
  the end is computed without error: the distance \<open>0\<close> of the point to that end is compared
  with the threshold by \<open><\<close>. (The term of a point with itself is computed exactly in
  floating point: both differences are \<open>0\<close>, so are their sines and the two squares.)
\<close>

theorem near_route_at_end_points:
  assumes "0 < threshold_km"
    and "rounding start_lat start_lon start_lat start_lon = 0"
    and "rounding end_lat end_lon end_lat end_lon = 0"
    and "calculate_distance rounding start_lat start_lon end_lat end_lon = Inr d1"
    and "calculate_distance rounding end_lat end_lon start_lat start_lon = Inr d2"
  shows "is_point_near_route rounding start_lat start_lon start_lat start_lon end_lat end_lon
           threshold_km = Inr True \<and>
         is_point_near_route rounding end_lat end_lon start_lat start_lon end_lat end_lon
           threshold_km = Inr True"
  using assms
  by (simp add: is_point_near_route_def Let_def calculate_distance_self)

theorem near_route_at_end_points_witness:
  "is_point_near_route exact 13.0827 80.2707 13.0827 80.2707 10.7905 78.7047 50 = Inr True \<and>
   is_point_near_route exact 10.7905 78.7047 13.0827 80.2707 10.7905 78.7047 50 = Inr True"
  using near_route_at_end_points
    [of 50 exact "13.0827" "80.2707" "10.7905" "78.7047"
       "great_circle 13.0827 80.2707 10.7905 78.7047"
       "great_circle 10.7905 78.7047 13.0827 80.2707"]
  by (simp add: calculate_distance_exact) (simp add: exact_def)

text \<open>
  Claim C7 as stated (whatever the threshold) fails at the threshold \<open>0\<close>: the start of
  the route from Chennai to Trichy is not near that route.
\<close>

theorem near_route_zero_threshold_counterexample:
  "is_point_near_route exact 13.0827 80.2707 13.0827 80.2707 10.7905 78.7047 0 = Inr False"
  using great_circle_nonneg [of "13.0827" "80.2707" "10.7905" "78.7047"]
  by (simp add: is_point_near_route_def Let_def calculate_distance_exact great_circle_self)

text \<open>
  Where the distance between the start and the end raises, the test raises too, whatever
  the point: at the opposite points named above, the start itself is not reported near.
\<close>

lemma near_route_antipodal_error:
  "is_point_near_route antipodal_rounding (- 12) (- 70) (- 12) (- 70) 12 110 50 =
     Inl (ValueError ''math domain error'')"
proof -
  have "calculate_distance antipodal_rounding (- 12) (- 70) (- 12) (- 70) = Inr 0"
    by (rule calculate_distance_self) (simp add: antipodal_rounding_def)
  moreover have "calculate_distance antipodal_rounding (- 12) (- 70) 12 110 =
      Inl (ValueError ''math domain error'')"
    by (rule calculate_distance_raises) (simp add: haversine_a_antipodal antipodal_rounding_def)
  ultimately show ?thesis
    by (simp add: is_point_near_route_def)
qed

text \<open>In exact arithmetic the test is the one on the great-circle distances.\<close>

lemma is_point_near_route_exact:
  "is_point_near_route exact point_lat point_lon start_lat start_lon end_lat end_lon threshold_km =
     Inr (great_circle point_lat point_lon start_lat start_lon < threshold_km \<or>
          great_circle point_lat point_lon end_lat end_lon < threshold_km \<or>
          great_circle point_lat point_lon start_lat start_lon +
            great_circle point_lat point_lon end_lat end_lon -
            great_circle start_lat start_lon end_lat end_lon < threshold_km)"
  by (simp add: is_point_near_route_def Let_def calculate_distance_exact)

subsection \<open>Sampling the waypoints\<close>

lemma visit_waypoint_falsy:
  "wp_lat wp \<in> {None, Some 0} \<or> wp_lon wp \<in> {None, Some 0} \<Longrightarrow>
     visit_waypoint env start_city end_city wp st = st"
  by (auto simp: visit_waypoint_def truthy_def split: prod.splits)

lemma waypoints_loop_append:
  "waypoints_loop env start_city end_city (xs @ ys) st =
     waypoints_loop env start_city end_city ys (waypoints_loop env start_city end_city xs st)"
  by (induction xs arbitrary: st) simp_all

text \<open>
  Claim C10. A sampled waypoint whose latitude or longitude is absent or exactly \<open>0\<close> is
  skipped: its round of the loop changes neither the cities, nor the names seen, nor the
  world (so the reverse geocoder is not called), and the function returns what it returns
  for the sampled waypoints without it.
\<close>

theorem falsy_waypoint_skipped:
  assumes "0 < sample_interval"
    and "sampled sample_interval waypoints = before @ wp # after"
    and "wp_lat wp \<in> {None, Some 0} \<or> wp_lon wp \<in> {None, Some 0}"
  shows "visit_waypoint env start_city end_city wp st = st \<and>
         find_cities_from_route_waypoints env waypoints start_city end_city sample_interval w =
           (case waypoints_loop env start_city end_city (before @ after) ([], {}, w) of
              (found, seen_cities, w') \<Rightarrow> (Inr found, w'))"
proof -
  have skip: "visit_waypoint env start_city end_city wp st = st" for st
    using assms(3) by (rule visit_waypoint_falsy)
  have "waypoints_loop env start_city end_city (before @ wp # after) ([], {}, w) =
        waypoints_loop env start_city end_city (before @ after) ([], {}, w)"
    by (simp add: waypoints_loop_append skip)
  then show ?thesis
    using assms(1) skip by (simp add: find_cities_from_route_waypoints_def assms(2))
qed

text \<open>
  Eleven waypoints, of which the first and the last are sampled. The first has latitude
  \<open>0\<close>: only the last one is reverse-geocoded, as the world returned shows.
\<close>

theorem falsy_waypoint_skipped_witness:
  "find_cities_from_route_waypoints (fixed_env two_places None (always_named ''Midway'') clear_weather)
     [\<lparr>wp_lat = Some 0, wp_lon = Some 100\<rparr>,
      \<lparr>wp_lat = Some 0.1, wp_lon = Some 100\<rparr>, \<lparr>wp_lat = Some 0.2, wp_lon = Some 100\<rparr>,
      \<lparr>wp_lat = Some 0.3, wp_lon = Some 100\<rparr>, \<lparr>wp_lat = Some 0.4, wp_lon = Some 100\<rparr>,
      \<lparr>wp_lat = Some 0.5, wp_lon = Some 100\<rparr>, \<lparr>wp_lat = Some 0.6, wp_lon = Some 100\<rparr>,
      \<lparr>wp_lat = Some 0.7, wp_lon = Some 100\<rparr>, \<lparr>wp_lat = Some 0.8, wp_lon = Some 100\<rparr>,
      \<lparr>wp_lat = Some 0.9, wp_lon = Some 100\<rparr>, \<lparr>wp_lat = Some 1, wp_lon = Some 100\<rparr>]
     ''Alpha'' ''Omega'' 10 [] =
   (Inr [mk_place ''Midway'' 1 100 ''''], [(1, 100)])"
proof -
  let ?ws = "[\<lparr>wp_lat = Some 0, wp_lon = Some 100\<rparr>,
      \<lparr>wp_lat = Some 0.1, wp_lon = Some 100\<rparr>, \<lparr>wp_lat = Some 0.2, wp_lon = Some 100\<rparr>,
      \<lparr>wp_lat = Some 0.3, wp_lon = Some 100\<rparr>, \<lparr>wp_lat = Some 0.4, wp_lon = Some 100\<rparr>,
      \<lparr>wp_lat = Some 0.5, wp_lon = Some 100\<rparr>, \<lparr>wp_lat = Some 0.6, wp_lon = Some 100\<rparr>,
      \<lparr>wp_lat = Some 0.7, wp_lon = Some 100\<rparr>, \<lparr>wp_lat = Some 0.8, wp_lon = Some 100\<rparr>,
      \<lparr>wp_lat = Some 0.9, wp_lon = Some 100\<rparr>, \<lparr>wp_lat = Some (1::real), wp_lon = Some (100::real)\<rparr>]"
  have s: "sampled 10 ?ws =
      [] @ \<lparr>wp_lat = Some 0, wp_lon = Some 100\<rparr> # [\<lparr>wp_lat = Some 1, wp_lon = Some 100\<rparr>]"
    by (simp add: sampled_def upt_rec)
  have z: "wp_lat \<lparr>wp_lat = Some (0::real), wp_lon = Some (100::real)\<rparr> \<in> {None, Some 0} \<or>
           wp_lon \<lparr>wp_lat = Some (0::real), wp_lon = Some (100::real)\<rparr> \<in> {None, Some 0}"
    by simp
  have p: "(0::nat) < 10"
    by simp
  show ?thesis
    using falsy_waypoint_skipped [OF p s z,
        of "fixed_env two_places None (always_named ''Midway'') clear_weather" "''Alpha''" "''Omega''" _ "[]"]
    by (simp add: visit_waypoint_def fixed_env_def always_named_def truthy_def get_or_simps
        lower_def lower_char_def)
qed

subsection \<open>Interpolation\<close>

lemma num_points_cases:
  "num_points d = (if d < 200 then 2 else if 600 \<le> d then 5 else nat \<lfloor>d / 100\<rfloor>)"
proof -
  consider "d < 0" | "0 \<le> d" "d < 200" | "200 \<le> d" "d < 600" | "600 \<le> d"
    by linarith
  then show ?thesis
  proof cases
    case 1
    then have "\<lceil>d / 100\<rceil> \<le> 0"
      by (simp add: ceiling_le_iff)
    with 1 show ?thesis
      by (simp add: num_points_def py_int_def)
  next
    case 2
    then have "\<lfloor>d / 100\<rfloor> < 2"
      by (simp add: floor_less_iff)
    with 2 show ?thesis
      by (simp add: num_points_def py_int_def)
  next
    case 3
    then have "2 \<le> \<lfloor>d / 100\<rfloor>" "\<lfloor>d / 100\<rfloor> < 6"
      by (simp_all add: le_floor_iff floor_less_iff)
    with 3 show ?thesis
      by (simp add: num_points_def py_int_def)
  next
    case 4
    then have "6 \<le> \<lfloor>d / 100\<rfloor>"
      by (simp add: le_floor_iff)
    with 4 show ?thesis
      by (simp add: num_points_def py_int_def)
  qed
qed

lemma num_points_range: "2 \<le> num_points d \<and> num_points d \<le> 5"
  unfolding num_points_def by linarith

text \<open>
  Claim C6, as the code has it. The fallback adds interpolation points exactly when it
  found fewer than 2 cities in the table and the total distance exceeds 100 km. The number
  of points is the whole number of 100 km in the total distance, but at least 2 and at most
  5, and point \<open>i\<close> of \<open>n\<close> lies at the fraction \<open>i / (n + 1)\<close> of the straight line
  from the start to the end.
\<close>

theorem fallback_interpolation_points:
  "route_cities_of env start_city end_city threshold_km start_coords end_coords w =
     (case calculate_distance (float_rounding env) (geo_lat start_coords) (geo_lon start_coords)
             (geo_lat end_coords) (geo_lon end_coords) of
        Inl e \<Rightarrow> (Inl e, w)
      | Inr total_distance \<Rightarrow>
          (case get_route_from_google_maps env start_city end_city w of
             (waypoints, w1) \<Rightarrow>
               if waypoints \<noteq> None \<and> waypoints \<noteq> Some [] then
                 primary_cities env start_city end_city (geo_lat start_coords)
                   (geo_lon start_coords) (get_or waypoints []) w1
               else
                 fallback_cities env start_city end_city (geo_lat start_coords)
                   (geo_lon start_coords) (geo_lat end_coords) (geo_lon end_coords)
                   threshold_km total_distance w1)) \<and>
   fallback_cities env start_city end_city start_lat start_lon end_lat end_lon threshold_km d w =
     (case curated_cities env start_city end_city start_lat start_lon end_lat end_lon
             threshold_km of
        Inl e \<Rightarrow> (Inl e, w)
      | Inr curated \<Rightarrow>
          if length curated < 2 \<and> 100 < d
          then (case interpolation_loop env start_lat start_lon
                       (interpolation_points start_lat start_lon end_lat end_lon d)
                       (curated, w) of
                  (found, w') \<Rightarrow> (Inr found, w'))
          else (Inr curated, w)) \<and>
   length (interpolation_points start_lat start_lon end_lat end_lon d) = num_points d \<and>
   num_points d = (if d < 200 then 2 else if 600 \<le> d then 5 else nat \<lfloor>d / 100\<rfloor>) \<and>
   2 \<le> num_points d \<and> num_points d \<le> 5 \<and>
   (\<forall>i < num_points d.
      interpolation_points start_lat start_lon end_lat end_lon d ! i =
        (start_lat + (end_lat - start_lat) * (real (i + 1) / real (num_points d + 1)),
         start_lon + (end_lon - start_lon) * (real (i + 1) / real (num_points d + 1))))"
proof -
  have "interpolation_points start_lat start_lon end_lat end_lon d ! i =
        (start_lat + (end_lat - start_lat) * (real (i + 1) / real (num_points d + 1)),
         start_lon + (end_lon - start_lon) * (real (i + 1) / real (num_points d + 1)))"
    if "i < num_points d" for i
    using that
    by (simp add: interpolation_points_def inter_point_def Let_def add.commute del: upt_Suc)
  moreover have "length (interpolation_points start_lat start_lon end_lat end_lon d) = num_points d"
    by (simp add: interpolation_points_def)
  ultimately show ?thesis
    using num_points_cases [of d] num_points_range [of d]
    by (simp add: fallback_cities_def route_cities_of_def Let_def)
qed

theorem fallback_interpolation_points_witness:
  "num_points 250 = 2 \<and>
   interpolation_points 10 20 13 26 250 ! 0 = (11, 22) \<and>
   interpolation_points 10 20 13 26 250 ! 1 = (12, 24)"
proof -
  note t = fallback_interpolation_points
    [where env = echo_env and start_city = "''Alpha''" and end_city = "''Omega''"
       and start_lat = 10 and start_lon = 20 and end_lat = 13 and end_lon = 26
       and threshold_km = 50 and w = "[]" and d = 250
       and start_coords = "\<lparr>geo_name = [], geo_lat = 10, geo_lon = 20, geo_state = None\<rparr>"
       and end_coords = "\<lparr>geo_name = [], geo_lat = 13, geo_lon = 26, geo_state = None\<rparr>"]
  from t have n: "num_points 250 = 2"
    by simp
  from t have "\<forall>i < num_points 250.
      interpolation_points 10 20 13 26 250 ! i =
        (10 + (13 - 10) * (real (i + 1) / real (num_points 250 + 1)),
         20 + (26 - 20) * (real (i + 1) / real (num_points 250 + 1)))"
    by blast
  then show ?thesis
    using n by simp
qed

text \<open>
  Claim C6 as stated (at least 1 point) fails at a total distance of 150 km: the code
  makes 2 points where one point per 100 km with a minimum of 1 makes 1.
\<close>

theorem num_points_minimum_counterexample:
  "num_points 150 = 2 \<and> spec_num_points 150 = 1"
  by (simp add: num_points_def spec_num_points_def py_int_def)

subsection \<open>The analysis\<close>

lemma assess_weather_severity_level:
  "assess_weather_severity weather \<in> {''low'', ''medium'', ''high'', ''critical''}"
  by (simp add: assess_weather_severity_def Let_def)

lemma visit_city_levels:
  assumes "\<forall>d \<in> set (fst st). get_or (severity d) ''low'' \<in> {''low'', ''medium'', ''high'', ''critical''}"
  shows "\<forall>d \<in> set (fst (visit_city env c st)).
           get_or (severity d) ''low'' \<in> {''low'', ''medium'', ''high'', ''critical''}"
proof -
  obtain cw ww sc w where st: "st = (cw, ww, sc, w)"
    by (cases st) auto
  show ?thesis
    using assms assess_weather_severity_level
    by (auto simp: st visit_city_def Let_def get_or_simps
        split: prod.splits sum.splits weather_reply.splits)
qed

lemma cities_loop_levels:
  "\<forall>d \<in> set (fst st). get_or (severity d) ''low'' \<in> {''low'', ''medium'', ''high'', ''critical''} \<Longrightarrow>
   \<forall>d \<in> set (fst (cities_loop env cs st)).
      get_or (severity d) ''low'' \<in> {''low'', ''medium'', ''high'', ''critical''}"
proof (induction cs arbitrary: st)
  case Nil
  then show ?case by simp
next
  case (Cons c cs)
  show ?case
    using Cons.IH [OF visit_city_levels [OF Cons.prems]] by simp
qed

lemma recommendation_after_loop:
  assumes "cities_loop env cs ([], [], [], w) = (cw, ww, sc, w')"
  shows "\<exists>t. generate_route_recommendation cw ww sc = Inr t"
proof -
  have "\<forall>d \<in> set (fst (cities_loop env cs ([], [], [], w))).
          get_or (severity d) ''low'' \<in> {''low'', ''medium'', ''high'', ''critical''}"
    by (rule cities_loop_levels) simp
  then have "\<forall>d \<in> set cw. get_or (severity d) ''low'' \<in> {''low'', ''medium'', ''high'', ''critical''}"
    by (simp add: assms)
  then show ?thesis
    using recommendation_cases by blast
qed

lemma analysis_resolved:
  assumes "resolve_route env start_city end_city w = (Inr (Some (cs, total_distance)), w1)"
  shows "\<exists>rep w2. get_route_weather_analysis env start_city end_city w = (Inr (Report rep), w2) \<and>
           (cities rep, weather_warnings rep, severe_conditions rep, w2) =
             cities_loop env cs ([], [], [], w1) \<and>
           route rep = \<lparr>route_start = start_city, route_end = end_city,
                        total_distance_km = round2 total_distance, cities_count = length cs\<rparr>"
proof -
  obtain cw ww sc w2 where loop: "cities_loop env cs ([], [], [], w1) = (cw, ww, sc, w2)"
    by (cases "cities_loop env cs ([], [], [], w1)") auto
  obtain t where t: "generate_route_recommendation cw ww sc = Inr t"
    using recommendation_after_loop [OF loop] by blast
  show ?thesis
    by (simp add: get_route_weather_analysis_def analysis_body_def assms loop t)
qed

lemma analysis_returns:
  "\<exists>r. fst (get_route_weather_analysis env start_city end_city w) = Inr r"
  by (simp add: get_route_weather_analysis_def split: prod.splits sum.splits)

lemma analysis_geocode_raises:
  "geocode_location env start_city w = (Inl x, w1) \<Longrightarrow>
     get_route_weather_analysis env start_city end_city w = (Inr (Failure (str_exn x)), w1)"
  "geocode_location env start_city w = (Inr g1, w1) \<Longrightarrow>
   geocode_location env end_city w1 = (Inl x, w2) \<Longrightarrow>
     get_route_weather_analysis env start_city end_city w = (Inr (Failure (str_exn x)), w2)"
  by (simp_all add: get_route_weather_analysis_def analysis_body_def resolve_route_def)

lemma analysis_geocode_none:
  "geocode_location env start_city w = (Inr g1, w1) \<Longrightarrow>
   geocode_location env end_city w1 = (Inr g2, w2) \<Longrightarrow> g1 = None \<or> g2 = None \<Longrightarrow>
     get_route_weather_analysis env start_city end_city w =
       (Inr (Failure ''Could not geocode start or end city''), w2)"
  by (auto simp: get_route_weather_analysis_def analysis_body_def resolve_route_def
      split: option.splits)

lemma cities_loop_skip:
  "(\<exists>x. get_weather_data env (name c) w = (Inl x, w')) \<or>
   get_weather_data env (name c) w = (Inr NotADict, w') \<or>
   (\<exists>wd. get_weather_data env (name c) w = (Inr (WeatherDict wd), w') \<and> \<not> success wd) \<Longrightarrow>
     cities_loop env (c # cs) (cw, ww, sc, w) = cities_loop env cs (cw, ww, sc, w')"
  by (auto simp: visit_city_def)

lemma visit_city_keep:
  "get_weather_data env (name c) w = (Inr (WeatherDict wd), w') \<Longrightarrow> success wd \<Longrightarrow>
     \<exists>ww' sc'. visit_city env c (cw, ww, sc, w) =
         (cw @ [\<lparr>city = name c, cd_state = state c, distance_km = distance_from_start c,
                 cd_weather = wd, severity = Some (assess_weather_severity wd),
                 cd_is_start = is_start c, cd_is_end = is_end c\<rparr>], ww', sc', w')"
  by (simp add: visit_city_def Let_def split del: if_split)

lemma cities_loop_keep:
  assumes "get_weather_data env (name c) w = (Inr (WeatherDict wd), w')" "success wd"
  shows "\<exists>ww' sc'. cities_loop env (c # cs) (cw, ww, sc, w) =
       cities_loop env cs
         (cw @ [\<lparr>city = name c, cd_state = state c, distance_km = distance_from_start c,
                 cd_weather = wd, severity = Some (assess_weather_severity wd),
                 cd_is_start = is_start c, cd_is_end = is_end c\<rparr>], ww', sc', w')"
proof -
  obtain ww' sc' where "visit_city env c (cw, ww, sc, w) =
         (cw @ [\<lparr>city = name c, cd_state = state c, distance_km = distance_from_start c,
                 cd_weather = wd, severity = Some (assess_weather_severity wd),
                 cd_is_start = is_start c, cd_is_end = is_end c\<rparr>], ww', sc', w')"
    using visit_city_keep [OF assms] by blast
  then show ?thesis
    by (intro exI [of _ ww'] exI [of _ sc']) simp
qed

lemma sampled_single: "0 < n \<Longrightarrow> sampled n [x] = [x]"
  by (simp add: sampled_def)

lemma analysis_distance_raises:
  "geocode_location env start_city w = (Inr (Some sc), w1) \<Longrightarrow>
   geocode_location env end_city w1 = (Inr (Some ec), w2) \<Longrightarrow>
   calculate_distance (float_rounding env) (geo_lat sc) (geo_lon sc) (geo_lat ec) (geo_lon ec)
     = Inl x \<Longrightarrow>
     get_route_weather_analysis env start_city end_city w = (Inr (Failure (str_exn x)), w2)"
  by (simp add: get_route_weather_analysis_def analysis_body_def resolve_route_def)

lemma analysis_second_geocode_raises:
  assumes "geocode_location env start_city w = (Inr (Some sc), w1)"
    and "geocode_location env end_city w1 = (Inr (Some ec), w2)"
    and "calculate_distance (float_rounding env) (geo_lat sc) (geo_lon sc) (geo_lat ec)
           (geo_lon ec) = Inr td"
  shows "geocode_location env start_city w2 = (Inl x, w3) \<Longrightarrow>
           get_route_weather_analysis env start_city end_city w = (Inr (Failure (str_exn x)), w3)"
    and "geocode_location env start_city w2 = (Inr g3, w3) \<Longrightarrow>
         geocode_location env end_city w3 = (Inl x, w4) \<Longrightarrow>
           get_route_weather_analysis env start_city end_city w = (Inr (Failure (str_exn x)), w4)"
  using assms
  by (simp_all add: get_route_weather_analysis_def analysis_body_def resolve_route_def
      find_cities_along_route_def)

lemma analysis_second_geocode_none:
  assumes "geocode_location env start_city w = (Inr (Some sc), w1)"
    and "geocode_location env end_city w1 = (Inr (Some ec), w2)"
    and "calculate_distance (float_rounding env) (geo_lat sc) (geo_lon sc) (geo_lat ec)
           (geo_lon ec) = Inr td"
    and "geocode_location env start_city w2 = (Inr g3, w3)"
    and "geocode_location env end_city w3 = (Inr g4, w4)"
    and "g3 = None \<or> g4 = None"
  shows "\<exists>rep w5. get_route_weather_analysis env start_city end_city w = (Inr (Report rep), w5) \<and>
           (cities rep, weather_warnings rep, severe_conditions rep, w5) =
             cities_loop env (all_cities sc ec td []) ([], [], [], w4) \<and>
           cities_count (route rep) = 2"
proof -
  have "find_cities_along_route env start_city end_city 50 w2 = (Inr [], w4)"
    using assms(4,5,6) by (auto simp: find_cities_along_route_def split: option.splits)
  then have "resolve_route env start_city end_city w =
      (Inr (Some (all_cities sc ec td [], td)), w4)"
    using assms(1,2,3) by (simp add: resolve_route_def)
  from analysis_resolved [OF this] show ?thesis
    by (auto simp: all_cities_def)
qed

text \<open>
  Between two places opposite on the globe the total distance raises, and the analysis
  returns the failure with the text of that exception.
\<close>

lemma analysis_opposite_places:
  "get_route_weather_analysis opposite_env ''Alpha'' ''Omega'' [] =
     (Inr (Failure ''math domain error''), [])"
proof -
  have "calculate_distance antipodal_rounding (- 12) (- 70) 12 110 =
      Inl (ValueError ''math domain error'')"
    by (rule calculate_distance_raises) (simp add: haversine_a_antipodal antipodal_rounding_def)
  then have "get_route_weather_analysis opposite_env ''Alpha'' ''Omega'' [] =
      (Inr (Failure (str_exn (ValueError ''math domain error''))), [])"
    by (intro analysis_distance_raises
        [where sc = "\<lparr>geo_name = ''Alpha'', geo_lat = - 12, geo_lon = - 70, geo_state = None\<rparr>"
           and ec = "\<lparr>geo_name = ''Omega'', geo_lat = 12, geo_lon = 110, geo_state = None\<rparr>"
           and ?w1.0 = "[]"])
      (simp_all add: opposite_env_def fixed_env_def opposite_places_def)
  then show ?thesis
    by (simp add: str_exn_def)
qed

lemma outage_route:
  "resolve_route outage_env ''Alpha'' ''Omega'' [] =
     (Inr (Some (all_cities
                   \<lparr>geo_name = ''Alpha'', geo_lat = 0, geo_lon = 100, geo_state = None\<rparr>
                   \<lparr>geo_name = ''Omega'', geo_lat = 1, geo_lon = 100, geo_state = None\<rparr>
                   (great_circle 0 100 1 100)
                   [mk_city ''Midway'' 0.5 100 '''' (round2 (great_circle 0 100 0.5 100))],
                 great_circle 0 100 1 100)),
      [(0.5, 100)])"
  by (simp add: resolve_route_def find_cities_along_route_def route_cities_of_def
      primary_cities_def find_cities_from_route_waypoints_def sampled_single
      visit_waypoint_def truthy_def calculate_distance_exact mk_place_def
      outage_env_def fixed_env_def two_places_def always_named_def get_or_simps
      lower_def lower_char_def Let_def)

lemma forgetful_route:
  "resolve_route forgetful_env ''Alpha'' ''Omega'' 0 =
     (Inr (Some (all_cities
                   \<lparr>geo_name = ''Alpha'', geo_lat = 0, geo_lon = 100, geo_state = None\<rparr>
                   \<lparr>geo_name = ''Omega'', geo_lat = 1, geo_lon = 100, geo_state = None\<rparr>
                   (great_circle 0 100 1 100) [],
                 great_circle 0 100 1 100)),
      4)"
  by (simp add: resolve_route_def find_cities_along_route_def calculate_distance_exact
      forgetful_env_def two_places_def eval_nat_numeral)

text \<open>
  Claim C3, as the code has it. The analysis never lets an exception out: it returns the
  report or the failure dictionary. The start and the end are geocoded twice, first by the
  analysis itself and then again by the route resolution. In the first pair of calls, a
  call that raises or finds nothing gives the failure, and so does a total distance whose
  computation raises. In the second pair a call that raises gives the failure, but one
  that finds nothing only leaves the route without intermediate cities: the result is a
  report on the start and the end. Once the route is resolved the result is a report,
  whatever the weather provider does; a city whose weather fetch raises, is not a
  dictionary or has no success is left out while the loop goes on with the next city, a
  city with a successful fetch being appended.
\<close>

theorem analysis_never_raises:
  "(\<exists>r. fst (get_route_weather_analysis env start_city end_city w) = Inr r) \<and>
   (geocode_location env start_city w = (Inl x, w1) \<longrightarrow>
      get_route_weather_analysis env start_city end_city w = (Inr (Failure (str_exn x)), w1)) \<and>
   (geocode_location env start_city w = (Inr g1, w1) \<and>
    geocode_location env end_city w1 = (Inl x, w2) \<longrightarrow>
      get_route_weather_analysis env start_city end_city w = (Inr (Failure (str_exn x)), w2)) \<and>
   (geocode_location env start_city w = (Inr g1, w1) \<and>
    geocode_location env end_city w1 = (Inr g2, w2) \<and> (g1 = None \<or> g2 = None) \<longrightarrow>
      get_route_weather_analysis env start_city end_city w =
        (Inr (Failure ''Could not geocode start or end city''), w2)) \<and>
   (geocode_location env start_city w = (Inr (Some sc), w1) \<and>
    geocode_location env end_city w1 = (Inr (Some ec), w2) \<and>
    calculate_distance (float_rounding env) (geo_lat sc) (geo_lon sc) (geo_lat ec) (geo_lon ec)
      = Inl x \<longrightarrow>
      get_route_weather_analysis env start_city end_city w = (Inr (Failure (str_exn x)), w2)) \<and>
   (geocode_location env start_city w = (Inr (Some sc), w1) \<and>
    geocode_location env end_city w1 = (Inr (Some ec), w2) \<and>
    calculate_distance (float_rounding env) (geo_lat sc) (geo_lon sc) (geo_lat ec) (geo_lon ec)
      = Inr td \<and>
    geocode_location env start_city w2 = (Inl x, w3) \<longrightarrow>
      get_route_weather_analysis env start_city end_city w = (Inr (Failure (str_exn x)), w3)) \<and>
   (geocode_location env start_city w = (Inr (Some sc), w1) \<and>
    geocode_location env end_city w1 = (Inr (Some ec), w2) \<and>
    calculate_distance (float_rounding env) (geo_lat sc) (geo_lon sc) (geo_lat ec) (geo_lon ec)
      = Inr td \<and>
    geocode_location env start_city w2 = (Inr g3, w3) \<and>
    geocode_location env end_city w3 = (Inl x, w4) \<longrightarrow>
      get_route_weather_analysis env start_city end_city w = (Inr (Failure (str_exn x)), w4)) \<and>
   (geocode_location env start_city w = (Inr (Some sc), w1) \<and>
    geocode_location env end_city w1 = (Inr (Some ec), w2) \<and>
    calculate_distance (float_rounding env) (geo_lat sc) (geo_lon sc) (geo_lat ec) (geo_lon ec)
      = Inr td \<and>
    geocode_location env start_city w2 = (Inr g3, w3) \<and>
    geocode_location env end_city w3 = (Inr g4, w4) \<and> (g3 = None \<or> g4 = None) \<longrightarrow>
      (\<exists>rep w5. get_route_weather_analysis env start_city end_city w = (Inr (Report rep), w5) \<and>
         (cities rep, weather_warnings rep, severe_conditions rep, w5) =
           cities_loop env (all_cities sc ec td []) ([], [], [], w4) \<and>
         cities_count (route rep) = 2)) \<and>
   (resolve_route env start_city end_city w = (Inr (Some (cs, total_distance)), w1) \<longrightarrow>
      (\<exists>rep w5. get_route_weather_analysis env start_city end_city w = (Inr (Report rep), w5) \<and>
         (cities rep, weather_warnings rep, severe_conditions rep, w5) =
           cities_loop env cs ([], [], [], w1) \<and>
         route rep = \<lparr>route_start = start_city, route_end = end_city,
                      total_distance_km = round2 total_distance, cities_count = length cs\<rparr>)) \<and>
   ((\<exists>e. get_weather_data env (name c) v = (Inl e, v')) \<or>
    get_weather_data env (name c) v = (Inr NotADict, v') \<or>
    (\<exists>wd. get_weather_data env (name c) v = (Inr (WeatherDict wd), v') \<and> \<not> success wd) \<longrightarrow>
      cities_loop env (c # rest) (cw, ww, sv, v) = cities_loop env rest (cw, ww, sv, v')) \<and>
   (get_weather_data env (name c) v = (Inr (WeatherDict wd), v') \<and> success wd \<longrightarrow>
      (\<exists>ww' sv'. cities_loop env (c # rest) (cw, ww, sv, v) =
         cities_loop env rest
           (cw @ [\<lparr>city = name c, cd_state = state c, distance_km = distance_from_start c,
                   cd_weather = wd, severity = Some (assess_weather_severity wd),
                   cd_is_start = is_start c, cd_is_end = is_end c\<rparr>], ww', sv', v')))"
  apply (intro conjI)
  subgoal by (rule analysis_returns)
  subgoal by (intro impI) (erule analysis_geocode_raises(1))
  subgoal by (intro impI, elim conjE) (rule analysis_geocode_raises(2); assumption)
  subgoal by (intro impI, elim conjE) (rule analysis_geocode_none; assumption)
  subgoal by (intro impI, elim conjE) (rule analysis_distance_raises; assumption)
  subgoal by (intro impI, elim conjE) (rule analysis_second_geocode_raises(1); assumption)
  subgoal by (intro impI, elim conjE) (rule analysis_second_geocode_raises(2); assumption)
  subgoal by (intro impI, elim conjE) (rule analysis_second_geocode_none; assumption)
  subgoal by (intro impI) (erule analysis_resolved)
  subgoal by (intro impI) (erule cities_loop_skip)
  subgoal by (intro impI, elim conjE) (rule cities_loop_keep; assumption)
  done

text \<open>
  A place the geocoder does not know gives the failure; on the route from Alpha to Omega
  through Midway, whose weather fetch raises, the report has the two other cities.
\<close>

theorem analysis_never_raises_witness:
  "get_route_weather_analysis outage_env ''Nowhere'' ''Omega'' [] =
     (Inr (Failure ''Could not geocode start or end city''), []) \<and>
   (\<exists>rep w3. get_route_weather_analysis outage_env ''Alpha'' ''Omega'' [] = (Inr (Report rep), w3) \<and>
      map city (cities rep) = [''Alpha'', ''Omega''] \<and> cities_count (route rep) = 3)"
proof -
  have g1: "geocode_location outage_env ''Nowhere'' [] = (Inr None, [])"
    by (simp add: outage_env_def fixed_env_def two_places_def)
  have g2: "geocode_location outage_env ''Omega'' [] =
      (Inr (Some \<lparr>geo_name = ''Omega'', geo_lat = 1, geo_lon = 100, geo_state = None\<rparr>), [])"
    by (simp add: outage_env_def fixed_env_def two_places_def)
  have failed: "get_route_weather_analysis outage_env ''Nowhere'' ''Omega'' [] =
     (Inr (Failure ''Could not geocode start or end city''), [])"
    using g1 g2 analysis_never_raises
      [where env = outage_env and start_city = "''Nowhere''" and end_city = "''Omega''"
         and w = "[]" and ?g1.0 = None and ?w1.0 = "[]" and ?w2.0 = "[]"
         and ?g2.0 = "Some \<lparr>geo_name = ''Omega'', geo_lat = 1, geo_lon = 100, geo_state = None\<rparr>",
       THEN conjunct2, THEN conjunct2, THEN conjunct2, THEN conjunct1]
    by simp
  let ?cs = "all_cities
            \<lparr>geo_name = ''Alpha'', geo_lat = 0, geo_lon = 100, geo_state = None\<rparr>
            \<lparr>geo_name = ''Omega'', geo_lat = 1, geo_lon = 100, geo_state = None\<rparr>
            (great_circle 0 100 1 100)
            [mk_city ''Midway'' 0.5 100 '''' (round2 (great_circle 0 100 0.5 100))]"
  have "\<exists>rep w3. get_route_weather_analysis outage_env ''Alpha'' ''Omega'' [] = (Inr (Report rep), w3) \<and>
         (cities rep, weather_warnings rep, severe_conditions rep, w3) =
           cities_loop outage_env ?cs ([], [], [], [(0.5, 100)]) \<and>
         route rep = \<lparr>route_start = ''Alpha'', route_end = ''Omega'',
                      total_distance_km = round2 (great_circle 0 100 1 100),
                      cities_count = length ?cs\<rparr>"
    using outage_route analysis_never_raises
      [where env = outage_env and start_city = "''Alpha''" and end_city = "''Omega''"
         and w = "[]" and ?w1.0 = "[(0.5, 100)]" and total_distance = "great_circle 0 100 1 100"
         and cs = ?cs,
       THEN conjunct2, THEN conjunct2, THEN conjunct2, THEN conjunct2, THEN conjunct2,
       THEN conjunct2, THEN conjunct2, THEN conjunct2, THEN conjunct1]
    by (rule rev_mp)
  then obtain rep w3 where rep:
    "get_route_weather_analysis outage_env ''Alpha'' ''Omega'' [] = (Inr (Report rep), w3)"
    "(cities rep, weather_warnings rep, severe_conditions rep, w3) =
       cities_loop outage_env ?cs ([], [], [], [(0.5, 100)])"
    "route rep = \<lparr>route_start = ''Alpha'', route_end = ''Omega'',
                      total_distance_km = round2 (great_circle 0 100 1 100),
                      cities_count = length ?cs\<rparr>"
    by blast
  have n: "cities_count (route rep) = 3"
    by (simp add: rep(3) all_cities_def)
  have m: "map city (cities rep) = [''Alpha'', ''Omega'']"
    using rep(2)
    by (simp add: all_cities_def mk_city_def visit_city_def
        outage_env_def fixed_env_def midway_down_def clear_weather_def Let_def
        assess_weather_severity_def any_word_in_def critical_words_def high_words_def
        medium_words_def get_or_simps lower_def lower_char_def)
  show ?thesis
  proof (intro conjI exI)
    show "get_route_weather_analysis outage_env ''Nowhere'' ''Omega'' [] =
        (Inr (Failure ''Could not geocode start or end city''), [])"
      by (rule failed)
    show "get_route_weather_analysis outage_env ''Alpha'' ''Omega'' [] = (Inr (Report rep), w3)"
      by (rule rep(1))
    show "map city (cities rep) = [''Alpha'', ''Omega'']"
      by (rule m)
    show "cities_count (route rep) = 3"
      by (rule n)
  qed
qed

text \<open>
  Claim C3 at a failing geocode. The geocoder of \<open>forgetful_env\<close> finds the two places on
  its first two calls and nothing afterwards, so the calls made by the route resolution
  (the third and the fourth) fail. The analysis still returns a report, on the start and
  the end city alone: a failed geocode of start or end does not always yield the failure
  result.
\<close>

theorem geocode_failure_report_counterexample:
  "geocode_location forgetful_env ''Alpha'' 2 = (Inr None, 3) \<and>
   geocode_location forgetful_env ''Omega'' 3 = (Inr None, 4) \<and>
   (\<exists>rep. get_route_weather_analysis forgetful_env ''Alpha'' ''Omega'' 0 = (Inr (Report rep), 4) \<and>
      map city (cities rep) = [''Alpha'', ''Omega''] \<and> cities_count (route rep) = 2)"
proof -
  let ?cs = "all_cities
            \<lparr>geo_name = ''Alpha'', geo_lat = 0, geo_lon = 100, geo_state = None\<rparr>
            \<lparr>geo_name = ''Omega'', geo_lat = 1, geo_lon = 100, geo_state = None\<rparr>
            (great_circle 0 100 1 100) []"
  obtain rep w5 where rep:
    "get_route_weather_analysis forgetful_env ''Alpha'' ''Omega'' 0 = (Inr (Report rep), w5)"
    "(cities rep, weather_warnings rep, severe_conditions rep, w5) =
       cities_loop forgetful_env ?cs ([], [], [], 4)"
    "route rep = \<lparr>route_start = ''Alpha'', route_end = ''Omega'',
                      total_distance_km = round2 (great_circle 0 100 1 100),
                      cities_count = length ?cs\<rparr>"
    using analysis_resolved [OF forgetful_route] by blast
  have loop: "map city (cities rep) = [''Alpha'', ''Omega''] \<and> w5 = 4"
    using rep(2)
    by (simp add: all_cities_def visit_city_def forgetful_env_def clear_weather_def Let_def
        assess_weather_severity_def any_word_in_def critical_words_def high_words_def
        medium_words_def get_or_simps lower_def lower_char_def)
  have n: "cities_count (route rep) = 2"
    by (simp add: rep(3) all_cities_def)
  show ?thesis
  proof (intro conjI exI)
    show "geocode_location forgetful_env ''Alpha'' 2 = (Inr None, 3)"
      by (simp add: forgetful_env_def)
    show "geocode_location forgetful_env ''Omega'' 3 = (Inr None, 4)"
      by (simp add: forgetful_env_def)
    show "get_route_weather_analysis forgetful_env ''Alpha'' ''Omega'' 0 = (Inr (Report rep), 4)"
      using rep(1) loop by simp
    show "map city (cities rep) = [''Alpha'', ''Omega'']"
      using loop by simp
    show "cities_count (route rep) = 2"
      by (rule n)
  qed
qed

subsection \<open>The order of the resolved route\<close>

lemma round_half_even_bounds:
  "y - 1 / 2 \<le> of_int (round_half_even y) \<and> of_int (round_half_even y) \<le> y + 1 / 2"
proof -
  have a: "of_int \<lfloor>y\<rfloor> \<le> y" and b: "y < of_int \<lfloor>y\<rfloor> + 1"
    by linarith+
  consider "y - of_int \<lfloor>y\<rfloor> < 1 / 2" | "1 / 2 < y - of_int \<lfloor>y\<rfloor>"
    | "y - of_int \<lfloor>y\<rfloor> = 1 / 2"
    by linarith
  then show ?thesis
  proof cases
    case 1
    then have e: "of_int (round_half_even y) = (of_int \<lfloor>y\<rfloor> :: real)"
      by (simp add: round_half_even_def Let_def)
    show ?thesis
      unfolding e using a 1 by linarith
  next
    case 2
    then have e: "of_int (round_half_even y) = (of_int \<lfloor>y\<rfloor> + 1 :: real)"
      by (simp add: round_half_even_def Let_def)
    show ?thesis
      unfolding e using b 2 by linarith
  next
    case 3
    then have "of_int (round_half_even y) = (of_int \<lfloor>y\<rfloor> :: real) \<or>
               of_int (round_half_even y) = (of_int \<lfloor>y\<rfloor> + 1 :: real)"
      by (simp add: round_half_even_def Let_def)
    then show ?thesis
      using 3 by linarith
  qed
qed

lemma round2_bounds: "x - 1 / 200 \<le> round2 x \<and> round2 x \<le> x + 1 / 200"
  using round_half_even_bounds [of "x * 100"] by (simp add: round2_def field_simps)

lemma round2_nonneg: "0 \<le> x \<Longrightarrow> 0 \<le> round2 x"
proof -
  assume "0 \<le> x"
  then have "0 \<le> \<lfloor>x * 100\<rfloor>"
    by simp
  then have "0 \<le> round_half_even (x * 100)"
    by (simp add: round_half_even_def Let_def)
  then show ?thesis
    by (simp add: round2_def)
qed


lemma visit_point_nonneg:
  assumes "\<forall>c \<in> set (fst st). 0 \<le> distance_from_start c"
  shows "\<forall>c \<in> set (fst (visit_point env start_lat start_lon p st)). 0 \<le> distance_from_start c"
proof -
  obtain rc w where st: "st = (rc, w)"
    by (cases st)
  show ?thesis
    using assms
    by (auto simp: st visit_point_def Let_def mk_city_def round2_nonneg
        dest: calculate_distance_nonneg split: prod.splits option.splits sum.splits)
qed

lemma interpolation_loop_nonneg:
  "\<forall>c \<in> set (fst st). 0 \<le> distance_from_start c \<Longrightarrow>
   \<forall>c \<in> set (fst (interpolation_loop env start_lat start_lon ps st)). 0 \<le> distance_from_start c"
proof (induction ps arbitrary: st)
  case Nil
  then show ?case by simp
next
  case (Cons p ps)
  show ?case
    using Cons.IH [OF visit_point_nonneg [OF Cons.prems]] by simp
qed

lemma add_distances_nonneg:
  "add_distances rounding start_lat start_lon ps = Inr cs \<Longrightarrow>
   \<forall>c \<in> set cs. 0 \<le> distance_from_start c"
proof (induction ps arbitrary: cs)
  case Nil
  then show ?case by simp
next
  case (Cons p ps)
  from Cons.prems obtain d rest where
    d: "calculate_distance rounding start_lat start_lon (lat p) (lon p) = Inr d"
    and rest: "add_distances rounding start_lat start_lon ps = Inr rest"
    and cs: "cs = mk_city (name p) (lat p) (lon p) (state p) (round2 d) # rest"
    by (auto split: sum.splits)
  show ?case
    using Cons.IH [OF rest] calculate_distance_nonneg [OF d]
    by (simp add: cs mk_city_def round2_nonneg)
qed

lemma curated_loop_nonneg:
  "\<forall>c \<in> set acc. 0 \<le> distance_from_start c \<Longrightarrow>
   curated_loop env start_city end_city start_lat start_lon end_lat end_lon threshold_km ps acc
     = Inr cs \<Longrightarrow>
   \<forall>c \<in> set cs. 0 \<le> distance_from_start c"
proof (induction ps arbitrary: acc)
  case Nil
  then show ?case by simp
next
  case (Cons p ps)
  consider
    (same) "curated_loop env start_city end_city start_lat start_lon end_lat end_lon threshold_km
              ps acc = Inr cs"
    | (more) d where
        "calculate_distance (float_rounding env) start_lat start_lon (lat p) (lon p) = Inr d"
        "curated_loop env start_city end_city start_lat start_lon end_lat end_lon threshold_km
              ps (acc @ [mk_city (name p) (lat p) (lon p) (state p) (round2 d)]) = Inr cs"
    using Cons.prems(2) by (auto split: if_splits sum.splits)
  then show ?case
  proof cases
    case same
    then show ?thesis
      using Cons.IH [OF Cons.prems(1)] by simp
  next
    case more
    have "\<forall>c \<in> set (acc @ [mk_city (name p) (lat p) (lon p) (state p) (round2 d)]).
            0 \<le> distance_from_start c"
      using Cons.prems(1) calculate_distance_nonneg [OF more(1)]
      by (simp add: mk_city_def round2_nonneg)
    from Cons.IH [OF this more(2)] show ?thesis .
  qed
qed

lemma fallback_cities_nonneg:
  assumes "fallback_cities env start_city end_city start_lat start_lon end_lat end_lon
             threshold_km total_distance w = (Inr cs, w')"
  shows "\<forall>c \<in> set cs. 0 \<le> distance_from_start c"
proof -
  from assms obtain curated where
    curated: "curated_cities env start_city end_city start_lat start_lon end_lat end_lon
                threshold_km = Inr curated"
    and cs: "cs = curated \<or>
             cs = fst (interpolation_loop env start_lat start_lon
                        (interpolation_points start_lat start_lon end_lat end_lon total_distance)
                        (curated, w))"
    by (auto simp: fallback_cities_def split: sum.splits if_splits prod.splits)
  have c: "\<forall>c \<in> set curated. 0 \<le> distance_from_start c"
    using curated curated_loop_nonneg [of "[]"] by (simp add: curated_cities_def)
  then have "\<forall>c \<in> set (fst (interpolation_loop env start_lat start_lon
                        (interpolation_points start_lat start_lon end_lat end_lon total_distance)
                        (curated, w))). 0 \<le> distance_from_start c"
    by (intro interpolation_loop_nonneg) simp
  with c cs show ?thesis
    by blast
qed

lemma route_cities_of_nonneg:
  assumes "route_cities_of env start_city end_city threshold_km sc ec w = (Inr cs, w')"
  shows "\<forall>c \<in> set cs. 0 \<le> distance_from_start c"
proof -
  from assms consider
    (primary) wps w1 where
      "primary_cities env start_city end_city (geo_lat sc) (geo_lon sc) wps w1 = (Inr cs, w')"
    | (fallback) td w1 where
      "fallback_cities env start_city end_city (geo_lat sc) (geo_lon sc) (geo_lat ec) (geo_lon ec)
         threshold_km td w1 = (Inr cs, w')"
    by (auto simp: route_cities_of_def Let_def split: sum.splits prod.splits if_splits)
  then show ?thesis
  proof cases
    case primary
    then show ?thesis
      using add_distances_nonneg
      by (auto simp: primary_cities_def split: prod.splits sum.splits)
  next
    case fallback
    then show ?thesis
      by (rule fallback_cities_nonneg)
  qed
qed

lemma find_cities_along_route_sorted:
  assumes "find_cities_along_route env start_city end_city threshold_km w = (Inr cs, w')"
  shows "sorted (map distance_from_start cs) \<and> (\<forall>c \<in> set cs. 0 \<le> distance_from_start c)"
  using assms route_cities_of_nonneg
  by (fastforce simp: find_cities_along_route_def split: prod.splits sum.splits option.splits)

text \<open>
  Claim C5, as the code has it. A resolved route is the start, the intermediate cities and
  the end: the start has distance \<open>0\<close>, the end has the total distance rounded to two
  decimals, the start and the intermediate cities are in ascending order of their distance
  from the start, and no distance is negative. (The end is appended after the sort: an
  intermediate city may be further from the start than the end is.)
\<close>

theorem resolved_route_order:
  assumes "resolve_route env start_city end_city w = (Inr (Some (cs, total_distance)), w')"
  shows "\<exists>first inter final.
           cs = first # inter @ [final] \<and>
           is_start first \<and> distance_from_start first = 0 \<and>
           is_end final \<and> distance_from_start final = round2 total_distance \<and>
           sorted (map distance_from_start (first # inter)) \<and>
           (\<forall>c \<in> set cs. 0 \<le> distance_from_start c)"
proof -
  from assms obtain sc ec inter w2 w3 where
    total: "calculate_distance (float_rounding env) (geo_lat sc) (geo_lon sc) (geo_lat ec)
              (geo_lon ec) = Inr total_distance"
    and inter: "find_cities_along_route env start_city end_city 50 w2 = (Inr inter, w3)"
    and cs: "cs = all_cities sc ec total_distance inter"
    by (auto simp: resolve_route_def Let_def split: prod.splits sum.splits option.splits)
  have s: "sorted (map distance_from_start inter)" "\<forall>c \<in> set inter. 0 \<le> distance_from_start c"
    using find_cities_along_route_sorted [OF inter] by simp_all
  have t: "0 \<le> round2 total_distance"
    using calculate_distance_nonneg [OF total] by (rule round2_nonneg)
  show ?thesis
    unfolding cs all_cities_def
    using s t by (intro exI) (auto simp: sorted_append)
qed

text \<open>
  The route from Alpha to Omega through Midway.
\<close>

theorem resolved_route_order_witness:
  "\<exists>first inter final.
     all_cities
       \<lparr>geo_name = ''Alpha'', geo_lat = 0, geo_lon = 100, geo_state = None\<rparr>
       \<lparr>geo_name = ''Omega'', geo_lat = 1, geo_lon = 100, geo_state = None\<rparr>
       (great_circle 0 100 1 100)
       [mk_city ''Midway'' 0.5 100 '''' (round2 (great_circle 0 100 0.5 100))]
       = first # inter @ [final] \<and>
     is_start first \<and> distance_from_start first = 0 \<and>
     is_end final \<and> distance_from_start final = round2 (great_circle 0 100 1 100) \<and>
     sorted (map distance_from_start (first # inter)) \<and>
     (\<forall>c \<in> set (all_cities
       \<lparr>geo_name = ''Alpha'', geo_lat = 0, geo_lon = 100, geo_state = None\<rparr>
       \<lparr>geo_name = ''Omega'', geo_lat = 1, geo_lon = 100, geo_state = None\<rparr>
       (great_circle 0 100 1 100)
       [mk_city ''Midway'' 0.5 100 '''' (round2 (great_circle 0 100 0.5 100))]).
        0 \<le> distance_from_start c)"
  using resolved_route_order [OF outage_route] .

lemma overshoot_route:
  "resolve_route overshoot_env ''Alpha'' ''Omega'' [] =
     (Inr (Some (all_cities
                   \<lparr>geo_name = ''Alpha'', geo_lat = 0, geo_lon = 100, geo_state = None\<rparr>
                   \<lparr>geo_name = ''Omega'', geo_lat = 1, geo_lon = 100, geo_state = None\<rparr>
                   (great_circle 0 100 1 100)
                   [mk_city ''Midway'' 2 100 '''' (round2 (great_circle 0 100 2 100))],
                 great_circle 0 100 1 100)),
      [(2, 100)])"
  by (simp add: resolve_route_def find_cities_along_route_def route_cities_of_def
      primary_cities_def find_cities_from_route_waypoints_def sampled_single
      visit_waypoint_def truthy_def calculate_distance_exact mk_place_def
      overshoot_env_def fixed_env_def two_places_def always_named_def get_or_simps
      lower_def lower_char_def Let_def)

lemma pi_ge_3: "3 \<le> pi"
  using sin_x_le_x [of "pi / 6"] by (simp add: sin_30)

lemma meridian_degrees:
  "great_circle 0 100 1 100 = 6371 * pi / 180"
  "great_circle 0 100 2 100 = 6371 * pi / 90"
  using great_circle_meridian [of 1 0 100] great_circle_meridian [of 2 0 100]
  by (simp_all add: radians_def)

lemma overshoot_distances:
  "round2 (great_circle 0 100 1 100) < round2 (great_circle 0 100 2 100)"
proof -
  have "round2 (6371 * pi / 180) \<le> 6371 * pi / 180 + 1 / 200"
    using round2_bounds [of "6371 * pi / 180"] by simp
  moreover have "6371 * pi / 90 - 1 / 200 \<le> round2 (6371 * pi / 90)"
    using round2_bounds [of "6371 * pi / 90"] by simp
  moreover have "6371 * pi / 180 + 1 / 200 < 6371 * pi / 90 - 1 / 200"
    using pi_ge_3 by simp
  ultimately show ?thesis
    unfolding meridian_degrees by linarith
qed

text \<open>
  Claim C5 as stated (the whole sequence in ascending order, every intermediate distance at
  most the total distance) fails on a route whose sampled waypoint lies beyond the end:
  from Alpha at latitude 0 to Omega at latitude 1, through Midway at latitude 2 on the
  same meridian, Midway is about 222 km from the start and Omega about 111 km.
\<close>

theorem overshoot_counterexample:
  "(case fst (resolve_route overshoot_env ''Alpha'' ''Omega'' []) of
      Inr (Some (cs, total_distance)) \<Rightarrow>
        map name cs = [''Alpha'', ''Midway'', ''Omega''] \<and>
        \<not> sorted (map distance_from_start cs) \<and>
        round2 total_distance < distance_from_start (cs ! 1)
    | _ \<Rightarrow> False)"
  using overshoot_distances
  by (simp add: overshoot_route all_cities_def mk_city_def)

subsection \<open>Cities named as the start or the end\<close>

lemma visit_waypoint_excludes:
  assumes "\<forall>c \<in> set (fst st).
             str_lower env (name c) \<notin> {str_lower env start_city, str_lower env end_city}"
  shows "\<forall>c \<in> set (fst (visit_waypoint env start_city end_city wp st)).
           str_lower env (name c) \<notin> {str_lower env start_city, str_lower env end_city}"
proof -
  obtain cs seen w where st: "st = (cs, seen, w)"
    by (cases st) auto
  show ?thesis
    using assms
    by (auto simp: st visit_waypoint_def Let_def mk_place_def split: prod.splits option.splits)
qed

lemma waypoints_loop_excludes:
  "\<forall>c \<in> set (fst st).
     str_lower env (name c) \<notin> {str_lower env start_city, str_lower env end_city} \<Longrightarrow>
   \<forall>c \<in> set (fst (waypoints_loop env start_city end_city wps st)).
      str_lower env (name c) \<notin> {str_lower env start_city, str_lower env end_city}"
proof (induction wps arbitrary: st)
  case Nil
  then show ?case by simp
next
  case (Cons wp wps)
  show ?case
    using Cons.IH [OF visit_waypoint_excludes [OF Cons.prems]] by simp
qed

lemma waypoint_cities_exclude_end_points:
  assumes "find_cities_from_route_waypoints env waypoints start_city end_city n w = (Inr cs, w')"
  shows "\<forall>c \<in> set cs.
           str_lower env (name c) \<notin> {str_lower env start_city, str_lower env end_city}"
proof -
  have "\<forall>c \<in> set (fst (waypoints_loop env start_city end_city (sampled n waypoints) ([], {}, w))).
          str_lower env (name c) \<notin> {str_lower env start_city, str_lower env end_city}"
    by (rule waypoints_loop_excludes) simp
  with assms show ?thesis
    by (auto simp: find_cities_from_route_waypoints_def split: if_splits prod.splits)
qed

lemma add_distances_names:
  "add_distances rounding start_lat start_lon ps = Inr cs \<Longrightarrow> map name cs = map name ps"
proof (induction ps arbitrary: cs)
  case Nil
  then show ?case by simp
next
  case (Cons p ps)
  from Cons.prems obtain d rest where
    rest: "add_distances rounding start_lat start_lon ps = Inr rest"
    and cs: "cs = mk_city (name p) (lat p) (lon p) (state p) (round2 d) # rest"
    by (auto split: sum.splits)
  show ?case
    using Cons.IH [OF rest] by (simp add: cs mk_city_def)
qed

lemma primary_cities_exclude_end_points:
  assumes "primary_cities env start_city end_city start_lat start_lon waypoints w = (Inr cs, w')"
  shows "\<forall>c \<in> set cs.
           str_lower env (name c) \<notin> {str_lower env start_city, str_lower env end_city}"
proof -
  from assms obtain ps where
    ps: "find_cities_from_route_waypoints env waypoints start_city end_city 10 w = (Inr ps, w')"
    and cs: "add_distances (float_rounding env) start_lat start_lon ps = Inr cs"
    by (auto simp: primary_cities_def split: prod.splits sum.splits)
  have "\<forall>n \<in> set (map name ps).
          str_lower env n \<notin> {str_lower env start_city, str_lower env end_city}"
    using waypoint_cities_exclude_end_points [OF ps] by simp
  then have "\<forall>n \<in> set (map name cs).
          str_lower env n \<notin> {str_lower env start_city, str_lower env end_city}"
    by (simp only: add_distances_names [OF cs])
  then show ?thesis
    by simp
qed

lemma curated_loop_excludes:
  "\<forall>c \<in> set acc.
     str_lower env (name c) \<notin> {str_lower env start_city, str_lower env end_city} \<Longrightarrow>
   curated_loop env start_city end_city start_lat start_lon end_lat end_lon threshold_km ps acc
     = Inr cs \<Longrightarrow>
   \<forall>c \<in> set cs.
     str_lower env (name c) \<notin> {str_lower env start_city, str_lower env end_city}"
proof (induction ps arbitrary: acc)
  case Nil
  then show ?case by simp
next
  case (Cons p ps)
  consider
    (same) "curated_loop env start_city end_city start_lat start_lon end_lat end_lon threshold_km
              ps acc = Inr cs"
    | (more) d where
        "str_lower env (name p) \<notin> {str_lower env start_city, str_lower env end_city}"
        "curated_loop env start_city end_city start_lat start_lon end_lat end_lon threshold_km
              ps (acc @ [mk_city (name p) (lat p) (lon p) (state p) (round2 d)]) = Inr cs"
    using Cons.prems(2) by (auto split: if_splits sum.splits)
  then show ?case
  proof cases
    case same
    then show ?thesis
      using Cons.IH [OF Cons.prems(1)] by simp
  next
    case more
    have "\<forall>c \<in> set (acc @ [mk_city (name p) (lat p) (lon p) (state p) (round2 d)]).
            str_lower env (name c) \<notin> {str_lower env start_city, str_lower env end_city}"
      using Cons.prems(1) more(1) by (simp add: mk_city_def)
    from Cons.IH [OF this more(2)] show ?thesis .
  qed
qed

lemma curated_cities_exclude_end_points:
  assumes "curated_cities env start_city end_city start_lat start_lon end_lat end_lon
             threshold_km = Inr cs"
  shows "\<forall>c \<in> set cs.
           str_lower env (name c) \<notin> {str_lower env start_city, str_lower env end_city}"
  using assms curated_loop_excludes [of "[]"] by (simp add: curated_cities_def)

text \<open>The table of cities lies north of 9 degrees of latitude, so none of its cities is
  near a short route close to the equator.\<close>

lemma table_latitudes: "\<forall>c \<in> set MAJOR_CITIES_INDIA. 9 \<le> lat c \<and> lat c \<le> 90"
  by (simp add: MAJOR_CITIES_INDIA_def mk_place_def)

lemma far_from_equator:
  assumes "9 \<le> la" "la \<le> 90" "0 \<le> sl" "sl \<le> 1"
  shows "800 \<le> great_circle la lo sl slo"
proof -
  have "radians 8 \<le> radians \<bar>sl - la\<bar>"
    using assms by (intro radians_mono) simp
  moreover have "6371 * radians \<bar>sl - la\<bar> \<le> great_circle la lo sl slo"
    using assms by (intro great_circle_ge_lat) simp_all
  moreover have "800 \<le> 6371 * radians 8"
    using pi_ge_3 by (simp add: radians_def)
  ultimately show ?thesis
    by linarith
qed

lemma not_near_short_equatorial_route:
  assumes "9 \<le> la" "la \<le> 90" "0 \<le> sl" "sl \<le> 1" "0 \<le> el" "el \<le> 1"
    and "great_circle sl slo el elo \<le> 150" "threshold_km \<le> 50"
  shows "is_point_near_route exact la lo sl slo el elo threshold_km = Inr False"
  using far_from_equator [OF assms(1,2,3,4), of lo slo] far_from_equator [OF assms(1,2,5,6), of lo elo]
    assms(7,8)
  by (simp add: is_point_near_route_exact)

lemma alpha_omega_distance:
  "100 < great_circle 0 100 1 100" "great_circle 0 100 1 100 < 150"
  using pi_ge_3 pi_less_4 by (simp_all add: meridian_degrees)

lemma curated_loop_none_near:
  assumes "float_rounding env = exact"
    and "\<forall>c \<in> set ps. is_point_near_route exact (lat c) (lon c) start_lat start_lon end_lat
            end_lon threshold_km = Inr False"
  shows "curated_loop env start_city end_city start_lat start_lon end_lat end_lon threshold_km
           ps acc = Inr acc"
  using assms(2) by (induction ps) (simp_all add: assms(1))

lemma curated_cities_alpha_omega:
  "curated_cities echo_env ''Alpha'' ''Omega'' 0 100 1 100 50 = Inr []"
proof -
  have "is_point_near_route exact (lat c) (lon c) 0 100 1 100 50 = Inr False"
    if "c \<in> set MAJOR_CITIES_INDIA" for c
    using that table_latitudes alpha_omega_distance(2)
    by (intro not_near_short_equatorial_route) auto
  then show ?thesis
    unfolding curated_cities_def
    by (intro curated_loop_none_near) (simp_all add: echo_env_def fixed_env_def)
qed

lemma interpolation_points_alpha_omega:
  "interpolation_points 0 100 1 100 (great_circle 0 100 1 100) = [(1 / 3, 100), (2 / 3, 100)]"
proof -
  have "num_points (great_circle 0 100 1 100) = 2"
    using alpha_omega_distance by (simp add: num_points_cases)
  then show ?thesis
    by (simp add: interpolation_points_def inter_point_def Let_def upt_rec)
qed

lemma fallback_cities_alpha_omega:
  "fallback_cities echo_env ''Alpha'' ''Omega'' 0 100 1 100 50 (great_circle 0 100 1 100) [] =
     (Inr [mk_city ''Alpha'' (1 / 3) 100 '''' (round2 (great_circle 0 100 (1 / 3) 100))],
      [(1 / 3, 100), (2 / 3, 100)])"
  using alpha_omega_distance(1)
  by (simp add: fallback_cities_def curated_cities_alpha_omega interpolation_points_alpha_omega
      visit_point_def)
    (simp add: echo_env_def fixed_env_def always_named_def calculate_distance_exact mk_city_def)

text \<open>
  Claim C4 at a failing input. The two paths above leave out a city named as the start or
  the end; the interpolation of the fallback only asks whether the name is in the list
  already. With no route from the directions provider, Alpha and Omega 111 km apart and a
  reverse geocoder that names the interpolated points after Alpha, the intermediate
  cities are one city named Alpha.
\<close>

theorem interpolation_names_start_city:
  "(case fst (find_cities_along_route echo_env ''Alpha'' ''Omega'' 50 []) of
      Inr cs \<Rightarrow> map name cs
    | Inl e \<Rightarrow> []) = [''Alpha'']"
proof -
  have "route_cities_of echo_env ''Alpha'' ''Omega'' 50
          \<lparr>geo_name = ''Alpha'', geo_lat = 0, geo_lon = 100, geo_state = None\<rparr>
          \<lparr>geo_name = ''Omega'', geo_lat = 1, geo_lon = 100, geo_state = None\<rparr> [] =
        fallback_cities echo_env ''Alpha'' ''Omega'' 0 100 1 100 50 (great_circle 0 100 1 100) []"
    by (simp add: route_cities_of_def echo_env_def fixed_env_def calculate_distance_exact)
  then show ?thesis
    by (simp add: find_cities_along_route_def fallback_cities_alpha_omega mk_city_def)
      (simp add: echo_env_def fixed_env_def two_places_def)
qed

end
